theory Spec2Isabelle
  imports Complex_Main
begin

section \<open>Strings as the source uses them\<close>

text \<open>
  Strings are byte strings. \<open>toLowerCase\<close> maps the ASCII capitals to their small
  letters and \<open>trim\<close> removes the ASCII white space (tab, line feed, vertical tab, form
  feed, carriage return, space) at both ends; JavaScript's extra Unicode cases are outside
  this model.
\<close>

definition is_space :: "char \<Rightarrow> bool" where
  "is_space c = ((of_char c :: nat) \<in> {9, 10, 11, 12, 13, 32})"

definition lower_char :: "char \<Rightarrow> char" where
  "lower_char c =
     (let n = (of_char c :: nat) in if 65 \<le> n \<and> n \<le> 90 then char_of (n + 32) else c)"

definition toLowerCase :: "string \<Rightarrow> string" where
  "toLowerCase s = map lower_char s"

definition trim :: "string \<Rightarrow> string" where
  "trim s = rev (dropWhile is_space (rev (dropWhile is_space s)))"

text \<open>\<open>a.startsWith(b)\<close> and \<open>a.includes(b)\<close>.\<close>

fun startsWith :: "string \<Rightarrow> string \<Rightarrow> bool" where
  "startsWith s [] = True"
| "startsWith [] (k # ks) = False"
| "startsWith (c # cs) (k # ks) = (c = k \<and> startsWith cs ks)"

fun includes_str :: "string \<Rightarrow> string \<Rightarrow> bool" where
  "includes_str [] k = (k = [])"
| "includes_str (c # cs) k = (startsWith (c # cs) k \<or> includes_str cs k)"

text \<open>\<open>parts.join(' ')\<close>.\<close>

fun join_sp :: "string list \<Rightarrow> string" where
  "join_sp [] = []"
| "join_sp [p] = p"
| "join_sp (p # q # ps) = p @ '' '' @ join_sp (q # ps)"

section \<open>Content model (backend/models/Content.js)\<close>

text \<open>
  A scraped item is a JavaScript object: \<open>url\<close> and \<open>title\<close> (the empty string stands
  for a missing one, both are falsy), and the other keys it supplies (\<open>description\<close>,
  \<open>tags\<close>, \<open>keywords\<close>, \<open>source\<close>, \<open>sourceName\<close>, \<open>type\<close>, \<open>scrapedBy\<close>, ...)
  as a map from key to value.
\<close>

datatype jsval = JStr string | JArr "string list" | JNull

record item =
  item_url :: string
  item_title :: string
  item_props :: "string \<rightharpoonup> jsval"

datatype content_status = Active | Archived | Deleted | Flagged

text \<open>
  A stored document: the identity hash, the attributes written from the item, and the
  attributes the store manages itself (\<open>status\<close> with schema default \<open>active\<close>,
  \<open>scrapedAt\<close>, \<open>lastUpdated\<close>, and the \<open>createdAt\<close> and \<open>updatedAt\<close> that the schema
  option \<open>timestamps: true\<close> adds; times are milliseconds).
\<close>

record content_doc =
  contentHash :: string
  doc_url :: string
  doc_title :: string
  doc_props :: "string \<rightharpoonup> jsval"
  status :: content_status
  scrapedAt :: int
  lastUpdated :: int
  createdAt :: int
  updatedAt :: int

text \<open>
  \<open>generateHash(url, title)\<close>. The digest \<open>crypto.createHash('sha256')...digest('hex')\<close>
  belongs to the platform and is the parameter \<open>sha256_hex\<close>.
\<close>

definition generateHash :: "(string \<Rightarrow> string) \<Rightarrow> string \<Rightarrow> string \<Rightarrow> string" where
  "generateHash sha256_hex u t =
     sha256_hex (trim (toLowerCase u) @ ''|'' @ trim (toLowerCase t))"

subsection \<open>bulkUpsert\<close>

text \<open>
  One \<open>updateOne\<close> operation of the bulk write, as the collection receives it: the filter
  \<open>{contentHash: hash}\<close>, the \<open>$set\<close> of the item's keys together with \<open>contentHash\<close> and
  \<open>lastUpdated\<close>, the \<open>$setOnInsert\<close> of \<open>scrapedAt\<close>, and \<open>upsert: true\<close>. Because the
  schema has \<open>timestamps: true\<close>, mongoose adds \<open>updatedAt\<close> to the \<open>$set\<close> and
  \<open>createdAt\<close> to the \<open>$setOnInsert\<close> of every operation, both with the time \<open>op_now\<close> at
  which \<open>bulkWrite\<close> casts it.
\<close>

record update_op =
  op_hash :: string
  op_item :: item
  op_lastUpdated :: int
  op_scrapedAt :: int
  op_now :: int

text \<open>
  \<open>contents.map(...)\<close> followed by the cast of \<open>bulkWrite\<close>. \<open>clock\<close> lists the clock
  readings that concern the batch, three for each item: the \<open>new Date()\<close> for
  \<open>lastUpdated\<close>, the \<open>new Date()\<close> for \<open>scrapedAt\<close>, and the time mongoose takes for its
  timestamps.
\<close>

fun operations :: "(string \<Rightarrow> string) \<Rightarrow> (nat \<Rightarrow> int) \<Rightarrow> nat \<Rightarrow> item list \<Rightarrow> update_op list" where
  "operations sha clock k [] = []"
| "operations sha clock k (c # cs) =
     \<lparr>op_hash = generateHash sha (item_url c) (item_title c), op_item = c,
      op_lastUpdated = clock k, op_scrapedAt = clock (Suc k), op_now = clock (Suc (Suc k))\<rparr>
     # operations sha clock (Suc (Suc (Suc k))) cs"

text \<open>The effect of \<open>$set\<close> on a matched document: supplied keys overwrite, others stay.\<close>

definition set_fields :: "update_op \<Rightarrow> content_doc \<Rightarrow> content_doc" where
  "set_fields o' d =
     d\<lparr>contentHash := op_hash o',
       doc_url := item_url (op_item o'),
       doc_title := item_title (op_item o'),
       doc_props := doc_props d ++ item_props (op_item o'),
       lastUpdated := op_lastUpdated o',
       updatedAt := op_now o'\<rparr>"

text \<open>The document an upsert creates: \<open>$set\<close> and \<open>$setOnInsert\<close> on the schema defaults.\<close>

definition insert_doc :: "update_op \<Rightarrow> content_doc" where
  "insert_doc o' =
     \<lparr>contentHash = op_hash o',
      doc_url = item_url (op_item o'),
      doc_title = item_title (op_item o'),
      doc_props = item_props (op_item o'),
      status = Active,
      scrapedAt = op_scrapedAt o',
      lastUpdated = op_lastUpdated o',
      createdAt = op_now o',
      updatedAt = op_now o'\<rparr>"

fun updateFirst :: "string \<Rightarrow> (content_doc \<Rightarrow> content_doc) \<Rightarrow> content_doc list \<Rightarrow> content_doc list" where
  "updateFirst h f [] = []"
| "updateFirst h f (d # ds) = (if contentHash d = h then f d # ds else d # updateFirst h f ds)"

datatype write_outcome = Upserted | Modified | Unchanged

text \<open>
  \<open>updateOne\<close> with \<open>upsert: true\<close> on the collection: no document with the hash means
  an insert; otherwise the first match is updated, and it counts as modified when the
  update changed it.
\<close>

definition updateOne :: "update_op \<Rightarrow> content_doc list \<Rightarrow> content_doc list \<times> write_outcome" where
  "updateOne o' st =
     (case find (\<lambda>d. contentHash d = op_hash o') st of
        None \<Rightarrow> (st @ [insert_doc o'], Upserted)
      | Some d \<Rightarrow> (updateFirst (op_hash o') (set_fields o') st,
                   if set_fields o' d = d then Unchanged else Modified))"

text \<open>
  \<open>bulkWrite(operations, { ordered: false })\<close>: all operations are updates, sent as one
  batch and taken to be applied one after the other in the order of the array. None of
  them fails here, so that going on after a failed operation, which is what
  \<open>ordered: false\<close> asks for, makes no difference.
\<close>

fun bulkWrite :: "update_op list \<Rightarrow> content_doc list \<Rightarrow> content_doc list \<times> write_outcome list" where
  "bulkWrite [] st = (st, [])"
| "bulkWrite (o' # os) st =
     (let (st1, r) = updateOne o' st; (st2, rs) = bulkWrite os st1 in (st2, r # rs))"

record upsert_result =
  inserted :: nat
  modified :: nat
  total :: nat

definition upsertedCount :: "write_outcome list \<Rightarrow> nat" where
  "upsertedCount rs = length (filter (\<lambda>r. r = Upserted) rs)"

definition modifiedCount :: "write_outcome list \<Rightarrow> nat" where
  "modifiedCount rs = length (filter (\<lambda>r. r = Modified) rs)"

definition bulkUpsert ::
  "(string \<Rightarrow> string) \<Rightarrow> (nat \<Rightarrow> int) \<Rightarrow> item list \<Rightarrow> content_doc list \<Rightarrow> content_doc list \<times> upsert_result" where
  "bulkUpsert sha clock contents st =
     (let (st', rs) = bulkWrite (operations sha clock 0 contents) st
      in (st', \<lparr>inserted = upsertedCount rs, modified = modifiedCount rs, total = length contents\<rparr>))"

subsection \<open>cleanup\<close>

text \<open>
  The time zone of the process, as the platform's \<open>Date\<close> uses it: the offset in
  milliseconds of local time from UTC at a UTC instant, and the offset it takes for a
  local time value when it converts that back to UTC.
\<close>

record timezone =
  offset_of_utc :: "int \<Rightarrow> int"
  offset_of_local :: "int \<Rightarrow> int"

text \<open>
  \<open>cutoffDate.setDate(cutoffDate.getDate() - maxAgeDays)\<close> works on the local calendar:
  the local time of \<open>now\<close>, moved back by whole days of 86400000 ms, read again as
  a UTC instant. \<open>deleteMany\<close> removes the matching documents and reports their number.
\<close>

definition cutoffDate :: "timezone \<Rightarrow> int \<Rightarrow> int \<Rightarrow> int" where
  "cutoffDate tz now maxAgeDays =
     (let local = now + offset_of_utc tz now;
          moved = local - maxAgeDays * 86400000
      in moved - offset_of_local tz moved)"

definition cleanup_matches :: "int \<Rightarrow> content_doc \<Rightarrow> bool" where
  "cleanup_matches cutoff d = (scrapedAt d < cutoff \<and> status d \<noteq> Flagged)"

definition cleanup :: "timezone \<Rightarrow> int \<Rightarrow> int \<Rightarrow> content_doc list \<Rightarrow> content_doc list \<times> nat" where
  "cleanup tz now maxAgeDays st =
     (let cutoff = cutoffDate tz now maxAgeDays
      in (filter (\<lambda>d. \<not> cleanup_matches cutoff d) st,
          length (filter (cleanup_matches cutoff) st)))"

section \<open>Run log (backend/models/ScrapingLog.js)\<close>

datatype log_status = Pending | Running | Completed | Failed | Cancelled | Partial

text \<open>
  A thrown JavaScript error: \<open>name\<close>, \<open>message\<close>, and the \<open>errorCode\<close>, \<open>statusCode\<close>
  and \<open>source\<close> that the classes of \<open>middleware/errorHandler\<close> add (absent on other errors).
\<close>

record js_error =
  err_name :: string
  err_message :: string
  errorCode :: "string option"
  statusCode :: "int option"
  err_source :: "string option"

definition APIError :: "string \<Rightarrow> int \<Rightarrow> string option \<Rightarrow> js_error" where
  "APIError msg sc ec =
     \<lparr>err_name = ''Error'', err_message = msg, errorCode = ec, statusCode = Some sc,
      err_source = None\<rparr>"

definition ScrapingError :: "string \<Rightarrow> string option \<Rightarrow> js_error" where
  "ScrapingError msg src = (APIError msg 500 (Some ''SCRAPING_ERROR''))\<lparr>err_source := src\<rparr>"

definition DatabaseError :: "string \<Rightarrow> js_error" where
  "DatabaseError msg = APIError msg 500 (Some ''DATABASE_ERROR'')"

record run_results =
  found :: int
  r_inserted :: int
  updated :: int
  duplicates :: int
  failed :: int
  urlsProcessed :: int
  urlsFailed :: int

text \<open>The argument of \<open>complete(results)\<close>: a key that is \<open>undefined\<close> is \<open>None\<close>.\<close>

record results_arg =
  a_found :: "int option"
  a_inserted :: "int option"
  a_updated :: "int option"
  a_duplicates :: "int option"
  a_failed :: "int option"
  a_urlsProcessed :: "int option"
  a_urlsFailed :: "int option"

record error_entry =
  e_timestamp :: int
  e_type :: string
  e_message :: string
  e_url :: "string option"
  e_retryCount :: nat

record warning_entry =
  w_timestamp :: int
  w_message :: string
  w_url :: "string option"

record scraping_log =
  log_status :: log_status
  startedAt :: int
  endedAt :: "int option"
  duration :: int
  results :: run_results
  avgTimePerItem :: real
  errorLogs :: "error_entry list"
  warnings :: "warning_entry list"

text \<open>\<open>startSession\<close>: \<open>status: 'running'\<close>, \<open>startedAt: new Date()\<close>, the rest at its default.\<close>

definition startSession :: "int \<Rightarrow> scraping_log" where
  "startSession now =
     \<lparr>log_status = Running, startedAt = now, endedAt = None, duration = 0,
      results = \<lparr>found = 0, r_inserted = 0, updated = 0, duplicates = 0, failed = 0,
                 urlsProcessed = 0, urlsFailed = 0\<rparr>,
      avgTimePerItem = 0, errorLogs = [], warnings = []\<rparr>"

text \<open>
  What the schema makes of the data that \<open>startSession\<close> hands to \<open>create\<close>: \<open>scraperName\<close>
  and \<open>source\<close> are required once trimmed, and \<open>triggeredBy\<close> (with \<open>'manual'\<close> for a missing
  or empty one) must be a value of its enum. \<open>create\<close> rejects with the validation error
  otherwise; the store itself is taken to answer.
\<close>

definition triggeredBy_enum :: "string list" where
  "triggeredBy_enum = [''manual'', ''scheduled'', ''api'', ''system'']"

definition session_invalid :: "string \<Rightarrow> string \<Rightarrow> string option \<Rightarrow> js_error option" where
  "session_invalid scraperName source triggeredBy =
     (let tb = (case triggeredBy of None \<Rightarrow> ''manual'' | Some t \<Rightarrow> if t = [] then ''manual'' else t);
          invalid = (\<lambda>path. Some \<lparr>err_name = ''ValidationError'',
                                     err_message = ''ScrapingLog validation failed: '' @ path,
                                     errorCode = None, statusCode = None, err_source = None\<rparr>)
      in if trim scraperName = [] then invalid ''scraperName''
         else if trim source = [] then invalid ''source''
         else if tb \<notin> set triggeredBy_enum then invalid ''triggeredBy''
         else None)"

definition or_keep :: "'a option \<Rightarrow> 'a \<Rightarrow> 'a" where
  "or_keep a old = (case a of None \<Rightarrow> old | Some v \<Rightarrow> v)"

definition merge_results :: "results_arg \<Rightarrow> run_results \<Rightarrow> run_results" where
  "merge_results a r =
     \<lparr>found = or_keep (a_found a) (found r),
      r_inserted = or_keep (a_inserted a) (r_inserted r),
      updated = or_keep (a_updated a) (updated r),
      duplicates = or_keep (a_duplicates a) (duplicates r),
      failed = or_keep (a_failed a) (failed r),
      urlsProcessed = or_keep (a_urlsProcessed a) (urlsProcessed r),
      urlsFailed = or_keep (a_urlsFailed a) (urlsFailed r)\<rparr>"

text \<open>\<open>complete(results)\<close>, at clock reading \<open>now\<close>.\<close>

definition complete :: "int \<Rightarrow> results_arg \<Rightarrow> scraping_log \<Rightarrow> scraping_log" where
  "complete now a l =
     (let d = now - startedAt l; r = merge_results a (results l)
      in l\<lparr>log_status := Completed, endedAt := Some now, duration := d, results := r,
           avgTimePerItem := (if found r > 0 then real_of_int d / real_of_int (found r)
                              else avgTimePerItem l)\<rparr>)"

text \<open>\<open>fail(error)\<close>: \<open>now\<close> is the reading for \<open>endedAt\<close>, \<open>now'\<close> the one for the entry.\<close>

definition fail :: "int \<Rightarrow> int \<Rightarrow> js_error \<Rightarrow> scraping_log \<Rightarrow> scraping_log" where
  "fail now now' e l =
     l\<lparr>log_status := Failed, endedAt := Some now, duration := now - startedAt l,
       errorLogs := errorLogs l @
         [\<lparr>e_timestamp = now', e_type = (if err_name e = [] then ''Error'' else err_name e),
           e_message = err_message e, e_url = None, e_retryCount = 0\<rparr>]\<rparr>"

definition cancel :: "int \<Rightarrow> scraping_log \<Rightarrow> scraping_log" where
  "cancel now l = l\<lparr>log_status := Cancelled, endedAt := Some now, duration := now - startedAt l\<rparr>"

text \<open>\<open>addError(errorData)\<close> and \<open>addWarning(warningData)\<close>.\<close>

definition addError :: "int \<Rightarrow> string \<Rightarrow> string \<Rightarrow> string option \<Rightarrow> nat \<Rightarrow> scraping_log \<Rightarrow> scraping_log" where
  "addError now ty msg u rc l =
     l\<lparr>errorLogs := errorLogs l @
         [\<lparr>e_timestamp = now, e_type = (if ty = [] then ''Error'' else ty), e_message = msg,
           e_url = u, e_retryCount = rc\<rparr>]\<rparr>"

definition addWarning :: "int \<Rightarrow> string \<Rightarrow> string option \<Rightarrow> scraping_log \<Rightarrow> scraping_log" where
  "addWarning now msg u l =
     l\<lparr>warnings := warnings l @ [\<lparr>w_timestamp = now, w_message = msg, w_url = u\<rparr>]\<rparr>"

text \<open>The terminal states of the specification's state machine.\<close>

definition terminal :: "log_status \<Rightarrow> bool" where
  "terminal st = (st = Completed \<or> st = Failed \<or> st = Cancelled \<or> st = Partial)"

section \<open>Robots cache (backend/utils/robotsParser.js)\<close>

text \<open>
  What the platform and the \<open>robots-parser\<close> package provide is a parameter:
  \<open>url_origin\<close> is \<open>getCacheKey\<close> (the \<open>origin\<close> of \<open>new URL(url)\<close>, with its fallback),
  \<open>robotsParser\<close> builds the rule set from the robots.txt URL and text (\<open>None\<close> when it
  throws), \<open>parser_isAllowed\<close> is the rule set's \<open>isAllowed(url, ua)\<close>.
\<close>

record 'p platform =
  url_origin :: "string \<Rightarrow> string"
  robotsParser :: "string \<Rightarrow> string \<Rightarrow> 'p option"
  parser_isAllowed :: "'p \<Rightarrow> string \<Rightarrow> string \<Rightarrow> bool"

text \<open>The outcome of \<open>axios.get(robotsUrl)\<close>: a network error, or a status and a body.\<close>

datatype http_outcome = NetError string | Response nat string

record 'p robots_entry =
  origin :: string
  parser :: "'p option"
  content :: "string option"
  fetchedAt :: int
  exists :: bool
  error :: "string option"

record robots_stats =
  hits :: nat
  misses :: nat
  fetchErrors :: nat
  urlsChecked :: nat

text \<open>The \<open>Map\<close> of the cache keeps its keys in insertion order.\<close>

record 'p robots_cache =
  cache :: "(string \<times> 'p robots_entry) list"
  ttl :: int
  maxSize :: nat
  userAgent :: string
  stats :: robots_stats

definition getRobotsUrl :: "'p platform \<Rightarrow> string \<Rightarrow> string" where
  "getRobotsUrl pf baseUrl = url_origin pf baseUrl @ ''/robots.txt''"

definition permissive :: "string \<Rightarrow> int \<Rightarrow> string option \<Rightarrow> 'p robots_entry" where
  "permissive org now err =
     \<lparr>origin = org, parser = None, content = None, fetchedAt = now, exists = False, error = err\<rparr>"

text \<open>
  \<open>fetch(url)\<close>: \<open>validateStatus\<close> accepts a status below 500, anything else and every
  exception of the \<open>try\<close> block ends in the \<open>catch\<close>. \<open>now\<close> is the reading of
  \<open>Date.now()\<close> when the entry is built.
\<close>

definition fetch ::
  "'p platform \<Rightarrow> http_outcome \<Rightarrow> int \<Rightarrow> string \<Rightarrow> 'p robots_cache \<Rightarrow> 'p robots_entry \<times> 'p robots_cache" where
  "fetch pf net now u c =
     (let org = url_origin pf u; robotsUrl = getRobotsUrl pf u;
          failed = (\<lambda>msg. (permissive org now (Some msg),
                            c\<lparr>stats := (stats c)\<lparr>fetchErrors := Suc (fetchErrors (stats c))\<rparr>\<rparr>))
      in case net of
           NetError msg \<Rightarrow> failed msg
         | Response st body \<Rightarrow>
             if \<not> st < 500 then failed ''Request failed''
             else if st = 200 then
               (case robotsParser pf robotsUrl body of
                  None \<Rightarrow> failed ''parse error''
                | Some p \<Rightarrow> (\<lparr>origin = org, parser = Some p, content = Some body, fetchedAt = now,
                              exists = True, error = None\<rparr>, c))
             else (permissive org now None, c))"





section \<open>Scraper (backend/scrapers/baseScraper.js)\<close>

subsection \<open>Configuration constants\<close>

definition is_digit :: "char \<Rightarrow> bool" where
  "is_digit c = (48 \<le> (of_char c :: nat) \<and> (of_char c :: nat) \<le> 57)"

definition digit_val :: "char \<Rightarrow> nat" where
  "digit_val c = of_char c - 48"

text \<open>
  \<open>parseInt(v, 10)\<close> of an environment variable (\<open>None\<close>: not set): leading white space,
  an optional sign, then the longest run of digits; \<open>NaN\<close>, here \<open>None\<close>, without a digit.
\<close>

definition parseInt :: "string option \<Rightarrow> int option" where
  "parseInt v =
     (case v of
        None \<Rightarrow> None
      | Some s \<Rightarrow>
          (let s1 = dropWhile is_space s;
               neg = (s1 \<noteq> [] \<and> hd s1 = CHR ''-'');
               s2 = (if s1 \<noteq> [] \<and> (hd s1 = CHR ''-'' \<or> hd s1 = CHR ''+'') then tl s1 else s1);
               ds = takeWhile is_digit s2
           in if ds = [] then None
              else Some ((if neg then - 1 else 1) * int (foldl (\<lambda>a c. 10 * a + digit_val c) 0 ds))))"

text \<open>\<open>x || d\<close> on a number: \<open>NaN\<close>, \<open>undefined\<close> and \<open>0\<close> are falsy.\<close>

definition or_default :: "int option \<Rightarrow> int \<Rightarrow> int" where
  "or_default x d = (case x of None \<Rightarrow> d | Some n \<Rightarrow> if n = 0 then d else n)"

text \<open>\<open>const MAX_RETRIES = parseInt(process.env.MAX_RETRIES, 10) || 3\<close>\<close>

definition MAX_RETRIES :: "string option \<Rightarrow> int" where
  "MAX_RETRIES env_var = or_default (parseInt env_var) 3"

text \<open>
  \<open>maxItems: parseInt(process.env.MAX_ITEMS_PER_CATEGORY, 10) || 500\<close>, which a
  \<open>maxItems\<close> of the constructor's \<open>config\<close> replaces.
\<close>

definition config_maxItems :: "string option \<Rightarrow> int option \<Rightarrow> int" where
  "config_maxItems env_var override =
     (case override of None \<Rightarrow> or_default (parseInt env_var) 500 | Some m \<Rightarrow> m)"

fun show_nat :: "nat \<Rightarrow> string" where
  "show_nat n =
     (if n < 10 then [char_of (48 + n)] else show_nat (n div 10) @ [char_of (48 + n mod 10)])"

subsection \<open>State of a scraper\<close>

text \<open>
  The effects that leave the process are kept as a trace: every pass through the \<open>try\<close>
  block of \<open>request\<close> and every back-off sleep with the milliseconds the timer waits.
\<close>

datatype io_event = Attempt string | Sleep real

record scraper =
  sc_name :: string
  sc_type :: string
  sc_sourceName :: string
  initialUrls :: "string list"
  maxItems :: int
  cfg_keywords :: "string list"
  scrapedItems :: "item list"
  processedUrls :: "string list"
  failedUrls :: "string list"
  retryAttempts :: "string \<rightharpoonup> nat"
  scrapingLog :: scraping_log
  io_trace :: "io_event list"

text \<open>\<open>Set.prototype.add\<close> on a set kept in insertion order; its \<open>size\<close> is the length.\<close>

definition set_add :: "'a \<Rightarrow> 'a list \<Rightarrow> 'a list" where
  "set_add x xs = (if x \<in> set xs then xs else xs @ [x])"

subsection \<open>request\<close>

text \<open>
  What one pass through the \<open>try\<close> block meets: the robots check says no, or the fetch
  (limiter, rate limit, \<open>axios\<close>) returns a body or throws.
\<close>

datatype attempt = RobotsBlocked | Fetched string | FetchFailed js_error

text \<open>
  The surroundings of one call, by the number of the pass: what it meets, the value of
  \<open>Math.random()\<close> for its back-off, and the clock.
\<close>

record req_env =
  outcome_at :: "nat \<Rightarrow> attempt"
  random_at :: "nat \<Rightarrow> real"
  now_at :: "nat \<Rightarrow> int"

definition try_block :: "attempt \<Rightarrow> int \<Rightarrow> string \<Rightarrow> scraper \<Rightarrow> (js_error + string) \<times> scraper" where
  "try_block a now u s =
     (case a of
        RobotsBlocked \<Rightarrow>
          (Inl (APIError (''Robots disallowed: '' @ u) 403 (Some ''ROBOTS_DISALLOWED'')),
           s\<lparr>scrapingLog := addWarning now ''Robots blocked URL (skipped)'' (Some u) (scrapingLog s)\<rparr>)
      | FetchFailed e \<Rightarrow> (Inl e, s)
      | Fetched html \<Rightarrow>
          (Inr html, s\<lparr>processedUrls := set_add u (processedUrls s),
                        retryAttempts := (retryAttempts s)(u := None)\<rparr>))"

text \<open>\<open>Math.pow(2, attempts) * 1000 + Math.random() * 500\<close>\<close>

definition backoff :: "nat \<Rightarrow> real \<Rightarrow> real" where
  "backoff attempts rnd = 2 ^ attempts * 1000 + rnd * 500"

text \<open>
  The time \<open>setTimeout(r, ms)\<close> waits on the platform: the whole milliseconds of \<open>ms\<close> when
  it lies between 1 and \<open>2^31 - 1\<close>, and 1 millisecond otherwise.
\<close>

definition setTimeout_delay :: "real \<Rightarrow> real" where
  "setTimeout_delay ms = (if 1 \<le> ms \<and> ms \<le> 2147483647 then of_int \<lfloor>ms\<rfloor> else 1)"

text \<open>
  The \<open>while (attempts < maxRetries)\<close> loop; \<open>i\<close> numbers the passes of this call. The
  result is the thrown error, or the returned body, or \<open>undefined\<close> (\<open>Inr None\<close>) when
  the loop ends without a \<open>return\<close>.
\<close>

function request_loop ::
  "req_env \<Rightarrow> string \<Rightarrow> int \<Rightarrow> nat \<Rightarrow> nat \<Rightarrow> scraper \<Rightarrow> (js_error + string option) \<times> scraper" where
  "request_loop env u maxRetries attempts i s =
     (if int attempts < maxRetries then
        (case try_block (outcome_at env i) (now_at env i) u (s\<lparr>io_trace := io_trace s @ [Attempt u]\<rparr>) of
           (Inr html, s1) \<Rightarrow> (Inr (Some html), s1)
         | (Inl e, s1) \<Rightarrow>
             (let s2 = s1\<lparr>retryAttempts := (retryAttempts s1)(u \<mapsto> Suc attempts)\<rparr>
              in if errorCode e = Some ''ROBOTS_DISALLOWED'' \<or> statusCode e = Some 403
                 then (Inl e, s2\<lparr>failedUrls := set_add u (failedUrls s2)\<rparr>)
                 else
                   (let s3 = s2\<lparr>scrapingLog :=
                               addError (now_at env i)
                                 (if err_name e = [] then ''RequestError'' else err_name e)
                                 (err_message e) (Some u) (Suc attempts) (scrapingLog s2)\<rparr>
                    in if int (Suc attempts) \<ge> maxRetries
                       then (Inl (ScrapingError
                                   (''Failed to fetch '' @ u @ '' after '' @ show_nat (nat maxRetries)
                                    @ '' attempts: '' @ err_message e) (Some u)),
                             s3\<lparr>failedUrls := set_add u (failedUrls s3)\<rparr>)
                       else request_loop env u maxRetries (Suc attempts) (Suc i)
                              (s3\<lparr>io_trace := io_trace s3 @
                                   [Sleep (setTimeout_delay (backoff (Suc attempts) (random_at env i)))]\<rparr>))))
      else (Inr None, s))"
  by pat_completeness auto
termination
  by (relation "measure (\<lambda>(env, u, maxRetries, attempts, i, s). nat (maxRetries - int attempts))") auto

text \<open>
  \<open>request(url, options)\<close>: \<open>opt_maxRetries\<close> is \<open>options.maxRetries\<close>, \<open>max_retries\<close> the
  module constant.
\<close>

definition request ::
  "req_env \<Rightarrow> int \<Rightarrow> string \<Rightarrow> int option \<Rightarrow> scraper \<Rightarrow> (js_error + string option) \<times> scraper" where
  "request env max_retries u opt_maxRetries s =
     request_loop env u (or_default opt_maxRetries max_retries)
       (case retryAttempts s u of None \<Rightarrow> 0 | Some n \<Rightarrow> n) 0 s"

subsection \<open>addItem\<close>

definition truthy :: "jsval option \<Rightarrow> bool" where
  "truthy v = (case v of None \<Rightarrow> False | Some JNull \<Rightarrow> False | Some (JStr s) \<Rightarrow> s \<noteq> [] | Some (JArr xs) \<Rightarrow> True)"

fun join_comma :: "string list \<Rightarrow> string" where
  "join_comma [] = []"
| "join_comma [p] = p"
| "join_comma (p # q # ps) = p @ '','' @ join_comma (q # ps)"

text \<open>An element of the array that survives \<open>filter(Boolean)\<close>, as \<open>join\<close> prints it.\<close>

definition text_of :: "jsval option \<Rightarrow> string list" where
  "text_of v =
     (case v of
        Some (JStr s) \<Rightarrow> (if s = [] then [] else [s])
      | Some (JArr xs) \<Rightarrow> [join_comma xs]
      | _ \<Rightarrow> [])"

text \<open>\<open>...(v || [])\<close> followed by \<open>filter(Boolean)\<close>: a string spreads into its characters.\<close>

definition spread :: "jsval option \<Rightarrow> string list" where
  "spread v =
     (case v of
        Some (JStr s) \<Rightarrow> map (\<lambda>c. [c]) s
      | Some (JArr xs) \<Rightarrow> filter (\<lambda>x. x \<noteq> []) xs
      | _ \<Rightarrow> [])"

definition item_text :: "item \<Rightarrow> string" where
  "item_text it =
     toLowerCase (join_sp
       ((if item_title it = [] then [] else [item_title it])
        @ text_of (item_props it ''description'')
        @ spread (item_props it ''tags'')
        @ spread (item_props it ''keywords'')
        @ text_of (item_props it ''source'')
        @ text_of (item_props it ''sourceName'')))"

definition isRelevant :: "string list \<Rightarrow> item \<Rightarrow> bool" where
  "isRelevant kws it = list_ex (\<lambda>k. includes_str (item_text it) k) kws"

definition addItem :: "item \<Rightarrow> scraper \<Rightarrow> scraper" where
  "addItem it s =
     (if item_title it = [] \<or> item_url it = [] then s
      else if \<not> isRelevant (cfg_keywords s) it then s
      else
        (let p = item_props it;
             p1 = (if truthy (p ''type'') then p else p(''type'' \<mapsto> JStr (sc_type s)));
             p2 = (if truthy (p1 ''sourceName'') then p1 else p1(''sourceName'' \<mapsto> JStr (sc_sourceName s)));
             p3 = p2(''scrapedBy'' \<mapsto> JStr (sc_name s))
         in s\<lparr>scrapedItems := scrapedItems s @ [it\<lparr>item_props := p3\<rparr>]\<rparr>))"

subsection \<open>Saving and run\<close>

text \<open>\<open>items.slice(0, end)\<close>: a negative \<open>end\<close> counts from the end of the array.\<close>

definition slice0 :: "int \<Rightarrow> 'a list \<Rightarrow> 'a list" where
  "slice0 e xs =
     (let n = int (length xs); k = (if e < 0 then max (n + e) 0 else min e n)
      in take (nat k) xs)"

record saved =
  s_inserted :: int
  s_modified :: int
  s_total :: int
  s_failed :: int

text \<open>
  \<open>_processAndSaveItems(items)\<close>: \<open>store_error\<close> is the message of the error that
  \<open>Content.bulkUpsert\<close> throws, if the store fails.
\<close>

definition processAndSaveItems ::
  "(string \<Rightarrow> string) \<Rightarrow> (nat \<Rightarrow> int) \<Rightarrow> string option \<Rightarrow> item list \<Rightarrow> scraper \<Rightarrow> content_doc list
     \<Rightarrow> (js_error + saved) \<times> content_doc list" where
  "processAndSaveItems sha clock store_error items s st =
     (if items = [] then (Inr \<lparr>s_inserted = 0, s_modified = 0, s_total = 0, s_failed = 0\<rparr>, st)
      else
        (case store_error of
           Some msg \<Rightarrow> (Inl (DatabaseError (''Failed saving items: '' @ msg)), st)
         | None \<Rightarrow>
             (let limited = slice0 (maxItems s) items;
                  (st', r) = bulkUpsert sha clock limited st
              in (Inr \<lparr>s_inserted = int (inserted r), s_modified = int (modified r),
                       s_total = int (total r), s_failed = 0\<rparr>, st'))))"

text \<open>
  What an adapter's \<open>scrapeSource\<close> does, seen from \<open>run\<close>: the URLs its requests
  processed and failed, the candidates it handed to \<open>addItem\<close>, and the error it threw,
  if any.
\<close>

record adapter_run =
  requests_ok :: "string list"
  requests_failed :: "string list"
  candidates :: "item list"
  thrown :: "js_error option"

definition scrapeSource :: "adapter_run \<Rightarrow> scraper \<Rightarrow> js_error option \<times> scraper" where
  "scrapeSource a s =
     (thrown a,
      fold addItem (candidates a)
        (s\<lparr>processedUrls := fold set_add (requests_ok a) (processedUrls s),
           failedUrls := fold set_add (requests_failed a) (failedUrls s)\<rparr>))"

record run_env =
  robots_allows :: "string \<Rightarrow> bool"
  adapter :: adapter_run
  t_start :: int
  t_end :: int
  store_clock :: "nat \<Rightarrow> int"
  store_error :: "string option"

text \<open>
  How a call of \<open>run\<close> ends: the promise rejects with an error, or it resolves with an
  object whose \<open>success\<close> flag is kept.
\<close>

datatype run_return = Rejected js_error | Returned bool

definition run_catch ::
  "run_env \<Rightarrow> js_error \<Rightarrow> scraper \<Rightarrow> content_doc list \<Rightarrow> run_return \<times> scraper \<times> content_doc list" where
  "run_catch env e s st =
     (Returned False, s\<lparr>scrapingLog := fail (t_end env) (t_end env) e (scrapingLog s)\<rparr>, st)"

text \<open>
  \<open>run(triggeredBy)\<close>, with \<open>None\<close> for a missing argument: the result is how the call ends,
  the scraper and the store afterwards. \<open>startSession\<close> is awaited before the \<open>try\<close>, so
  its rejection is the rejection of \<open>run\<close> and leaves the scraper without a new log.
\<close>

definition run ::
  "(string \<Rightarrow> string) \<Rightarrow> run_env \<Rightarrow> string option \<Rightarrow> scraper \<Rightarrow> content_doc list
     \<Rightarrow> run_return \<times> scraper \<times> content_doc list" where
  "run sha env triggeredBy s st =
     (let c0 = s\<lparr>scrapedItems := [], processedUrls := [], failedUrls := []\<rparr>
      in case session_invalid (sc_name s) (sc_sourceName s)
                (case triggeredBy of None \<Rightarrow> Some ''manual'' | Some t \<Rightarrow> Some t) of
           Some e \<Rightarrow> (Rejected e, c0, st)
         | None \<Rightarrow>
      (let s0 = c0\<lparr>scrapingLog := startSession (t_start env)\<rparr>;
          blocked = filter (\<lambda>u. \<not> robots_allows env u) (initialUrls s0);
          allowedInitial = filter (robots_allows env) (initialUrls s0);
          s1 = s0\<lparr>scrapingLog :=
                   fold (\<lambda>u. addWarning (t_start env) ''Robots blocked initial URL (skipped)'' (Some u))
                     blocked (scrapingLog s0)\<rparr>
      in if allowedInitial = []
         then run_catch env
                (APIError ''All initial URLs are blocked by robots.txt. Nothing to scrape.'' 403
                   (Some ''ROBOTS_DISALLOWED'')) s1 st
         else
           (case scrapeSource (adapter env) (s1\<lparr>initialUrls := allowedInitial\<rparr>) of
              (Some e, s3) \<Rightarrow> run_catch env e s3 st
            | (None, s3) \<Rightarrow>
                (case processAndSaveItems sha (store_clock env) (store_error env) (scrapedItems s3) s3 st of
                   (Inl e, st') \<Rightarrow> run_catch env e s3 st'
                 | (Inr sv, st') \<Rightarrow>
                     (Returned True,
                      s3\<lparr>scrapingLog :=
                           complete (t_end env)
                             \<lparr>a_found = Some (int (length (scrapedItems s3))),
                              a_inserted = Some (s_inserted sv),
                              a_updated = Some (s_modified sv),
                              a_duplicates = Some (s_total sv - s_inserted sv - s_modified sv),
                              a_failed = Some (s_failed sv),
                              a_urlsProcessed = Some (int (length (processedUrls s3))),
                              a_urlsFailed = Some (int (length (failedUrls s3)))\<rparr>
                             (scrapingLog s3)\<rparr>,
                      st')))))"

section \<open>Notions of the specification\<close>

text \<open>
  The content hash as the specification writes it:
  \<open>SHA-256(lc(trim(url)) || "|" || lc(trim(title)))\<close>.
\<close>

definition hash_ok :: "(string \<Rightarrow> string) \<Rightarrow> content_doc \<Rightarrow> bool" where
  "hash_ok sha d =
     (contentHash d = sha (toLowerCase (trim (doc_url d)) @ ''|'' @ toLowerCase (trim (doc_title d))))"





text \<open>Auxiliary notions for the proofs about \<open>bulkWrite\<close>.\<close>

definition op_wf :: "(string \<Rightarrow> string) \<Rightarrow> update_op \<Rightarrow> bool" where
  "op_wf sha o' = (op_hash o' = generateHash sha (item_url (op_item o')) (item_title (op_item o')))"





text \<open>
  The fields of a scraper as the constructor leaves them (configuration as given, no
  items, no URLs, no stored attempts), with the log that \<open>run\<close> opens.
\<close>

definition initial_scraper ::
  "string \<Rightarrow> string \<Rightarrow> string \<Rightarrow> string list \<Rightarrow> int \<Rightarrow> string list \<Rightarrow> scraping_log \<Rightarrow> scraper" where
  "initial_scraper name ty sourceName urls max_items kws l =
     \<lparr>sc_name = name, sc_type = ty, sc_sourceName = sourceName, initialUrls = urls,
      maxItems = max_items, cfg_keywords = kws, scrapedItems = [], processedUrls = [],
      failedUrls = [], retryAttempts = Map.empty, scrapingLog = l, io_trace = []\<rparr>"

text \<open>The passes through the \<open>try\<close> block among the traced effects.\<close>

fun is_attempt :: "io_event \<Rightarrow> bool" where
  "is_attempt (Attempt u) = True"
| "is_attempt (Sleep ms) = False"

text \<open>The test of the \<open>catch\<close> block for an error that must not be retried.\<close>

definition robots_like :: "js_error \<Rightarrow> bool" where
  "robots_like e = (errorCode e = Some ''ROBOTS_DISALLOWED'' \<or> statusCode e = Some 403)"

text \<open>The session of a run opens: \<open>startSession\<close> does not reject.\<close>

definition session_opens :: "scraper \<Rightarrow> string option \<Rightarrow> bool" where
  "session_opens s triggeredBy =
     (session_invalid (sc_name s) (sc_sourceName s)
        (case triggeredBy of None \<Rightarrow> Some ''manual'' | Some t \<Rightarrow> Some t) = None)"

text \<open>The scraper with which \<open>run\<close> calls \<open>scrapeSource\<close>, and the one the adapter leaves.\<close>

definition run_prepared :: "run_env \<Rightarrow> scraper \<Rightarrow> scraper" where
  "run_prepared env s =
     s\<lparr>scrapedItems := [], processedUrls := [], failedUrls := [],
       scrapingLog :=
         fold (\<lambda>u. addWarning (t_start env) ''Robots blocked initial URL (skipped)'' (Some u))
           (filter (\<lambda>u. \<not> robots_allows env u) (initialUrls s)) (startSession (t_start env)),
       initialUrls := filter (robots_allows env) (initialUrls s)\<rparr>"

definition run_scraped :: "run_env \<Rightarrow> scraper \<Rightarrow> scraper" where
  "run_scraped env s = snd (scrapeSource (adapter env) (run_prepared env s))"

section \<open>The content hash\<close>

lemma is_space_lower_char: "is_space (lower_char c) = is_space c"
  unfolding is_space_def lower_char_def Let_def
  by (cases c) (auto simp: char_of_def)

lemma dropWhile_space_lower:
  "dropWhile is_space (map lower_char s) = map lower_char (dropWhile is_space s)"
  by (induction s) (simp_all add: is_space_lower_char)

lemma trim_toLowerCase: "trim (toLowerCase s) = toLowerCase (trim s)"
  by (simp add: trim_def toLowerCase_def rev_map dropWhile_space_lower)

lemma operations_wf: "o' \<in> set (operations sha clock k cs) \<Longrightarrow> op_wf sha o'"
  by (induction cs arbitrary: k) (auto simp: op_wf_def)

lemma hash_ok_set_fields: "op_wf sha o' \<Longrightarrow> hash_ok sha (set_fields o' d)"
  by (simp add: op_wf_def hash_ok_def set_fields_def generateHash_def trim_toLowerCase)

lemma hash_ok_insert_doc: "op_wf sha o' \<Longrightarrow> hash_ok sha (insert_doc o')"
  by (simp add: op_wf_def hash_ok_def insert_doc_def generateHash_def trim_toLowerCase)

lemma set_updateFirst: "set (updateFirst h f st) \<subseteq> set st \<union> f ` set st"
  by (induction st) auto

lemma updateOne_written:
  assumes "op_wf sha o'"
  shows "set (fst (updateOne o' st)) \<subseteq> set st \<union> {d. hash_ok sha d}"
proof (cases "find (\<lambda>d. contentHash d = op_hash o') st")
  case None
  then show ?thesis using assms by (auto simp: updateOne_def hash_ok_insert_doc)
next
  case (Some d)
  then show ?thesis
    using assms set_updateFirst [of "op_hash o'" "set_fields o'" st]
    by (auto simp: updateOne_def hash_ok_set_fields)
qed

lemma fst_bulkWrite_Cons:
  "fst (bulkWrite (o' # os) st) = fst (bulkWrite os (fst (updateOne o' st)))"
  by (simp add: split_beta Let_def)

lemma snd_bulkWrite_Cons:
  "snd (bulkWrite (o' # os) st) = snd (updateOne o' st) # snd (bulkWrite os (fst (updateOne o' st)))"
  by (simp add: split_beta Let_def)

lemma bulkWrite_Nil: "bulkWrite [] st = (st, [])"
  by simp

declare bulkWrite.simps [simp del]
declare bulkWrite_Nil [simp] fst_bulkWrite_Cons [simp] snd_bulkWrite_Cons [simp]

lemma contentHash_set_fields [simp]: "contentHash (set_fields o' d) = op_hash o'"
  by (simp add: set_fields_def)



lemma bulkWrite_written:
  "\<forall>o' \<in> set ops. op_wf sha o' \<Longrightarrow> set (fst (bulkWrite ops st)) \<subseteq> set st \<union> {d. hash_ok sha d}"
proof (induction ops arbitrary: st)
  case Nil
  then show ?case by simp
next
  case (Cons a ops)
  have a: "set (fst (updateOne a st)) \<subseteq> set st \<union> {d. hash_ok sha d}"
    using Cons.prems by (simp add: updateOne_written)
  have b: "set (fst (bulkWrite ops (fst (updateOne a st)))) \<subseteq> set (fst (updateOne a st)) \<union> {d. hash_ok sha d}"
    using Cons.prems by (intro Cons.IH) simp
  show ?case using a b by auto
qed

text \<open>
  C1. Every record written through the store carries as \<open>contentHash\<close> the hex SHA-256
  digest of the lowercased, trimmed URL, the separator \<open>|\<close> and the lowercased, trimmed
  title: \<open>generateHash\<close> computes exactly that, and after \<open>bulkUpsert\<close> every document of
  the collection that was not there before satisfies it.
\<close>

theorem contentHash_is_sha256_of_url_and_title:
  "generateHash sha u t = sha (toLowerCase (trim u) @ ''|'' @ toLowerCase (trim t))
   \<and> set (fst (bulkUpsert sha clock contents st)) \<subseteq> set st \<union> {d. hash_ok sha d}"
proof
  show "generateHash sha u t = sha (toLowerCase (trim u) @ ''|'' @ toLowerCase (trim t))"
    by (simp add: generateHash_def trim_toLowerCase)
  have "set (fst (bulkWrite (operations sha clock 0 contents) st)) \<subseteq> set st \<union> {d. hash_ok sha d}"
    by (rule bulkWrite_written) (auto dest: operations_wf)
  then show "set (fst (bulkUpsert sha clock contents st)) \<subseteq> set st \<union> {d. hash_ok sha d}"
    by (simp add: bulkUpsert_def split_beta Let_def)
qed

section \<open>Idempotence of the bulk upsert\<close>






























lemma snd_bulkUpsert:
  "snd (bulkUpsert sha clock cs st) =
     \<lparr>inserted = upsertedCount (snd (bulkWrite (operations sha clock 0 cs) st)),
      modified = modifiedCount (snd (bulkWrite (operations sha clock 0 cs) st)),
      total = length cs\<rparr>"
  by (simp add: bulkUpsert_def split_beta)

text \<open>
  The specification's scenario of a repeated run, on the model: one item, an empty store.
  The first call inserts the record; the second, with a later clock, inserts nothing and
  counts it as modified, because \<open>lastUpdated\<close> and \<open>updatedAt\<close> changed; with the same
  clock reading it would be a duplicate.
\<close>

lemma bulkUpsert_repeated_example:
  "snd (bulkUpsert (\<lambda>x. x) (\<lambda>k. 100)
         [\<lparr>item_url = ''https://ex.com/a'', item_title = ''webmethods x'', item_props = Map.empty\<rparr>] [])
     = \<lparr>inserted = 1, modified = 0, total = 1\<rparr>
   \<and> snd (bulkUpsert (\<lambda>x. x) (\<lambda>k. 200)
         [\<lparr>item_url = ''https://ex.com/a'', item_title = ''webmethods x'', item_props = Map.empty\<rparr>]
         (fst (bulkUpsert (\<lambda>x. x) (\<lambda>k. 100)
            [\<lparr>item_url = ''https://ex.com/a'', item_title = ''webmethods x'', item_props = Map.empty\<rparr>] [])))
     = \<lparr>inserted = 0, modified = 1, total = 1\<rparr>
   \<and> snd (bulkUpsert (\<lambda>x. x) (\<lambda>k. 100)
         [\<lparr>item_url = ''https://ex.com/a'', item_title = ''webmethods x'', item_props = Map.empty\<rparr>]
         (fst (bulkUpsert (\<lambda>x. x) (\<lambda>k. 100)
            [\<lparr>item_url = ''https://ex.com/a'', item_title = ''webmethods x'', item_props = Map.empty\<rparr>] [])))
     = \<lparr>inserted = 0, modified = 0, total = 1\<rparr>"
  by (simp add: bulkUpsert_def bulkWrite.simps updateOne_def set_fields_def insert_doc_def
      upsertedCount_def modifiedCount_def Let_def)



section \<open>Cleanup\<close>

text \<open>
  C8 as stated fails where the zone's offset changes between the two dates. In a zone
  that is five hours behind UTC before the instant 0 and four hours behind from then on,
  one day after the change and with \<open>maxAgeDays = 2\<close>, the cutoff is an hour later than
  now minus two days of 24 hours: an active record scraped half an hour after now minus
  two days is not older than that, and is deleted.
\<close>

theorem cleanup_calendar_days_counterexample:
  "\<not> scrapedAt \<lparr>contentHash = ''a'', doc_url = ''u1'', doc_title = ''t1'', doc_props = Map.empty,
        status = Active, scrapedAt = - 84600000, lastUpdated = 0, createdAt = 0, updatedAt = 0\<rparr>
      < 86400000 - 2 * 86400000
   \<and> cleanup \<lparr>offset_of_utc = (\<lambda>t. if t < 0 then - 18000000 else - 14400000),
              offset_of_local = (\<lambda>l. if l < - 14400000 then - 18000000 else - 14400000)\<rparr>
       86400000 2
       [\<lparr>contentHash = ''a'', doc_url = ''u1'', doc_title = ''t1'', doc_props = Map.empty,
         status = Active, scrapedAt = - 84600000, lastUpdated = 0, createdAt = 0, updatedAt = 0\<rparr>]
     = ([], 1)"
  by (simp add: cleanup_def cleanup_matches_def cutoffDate_def Let_def)

text \<open>
  C8 as amended: \<open>cleanup(maxAgeDays)\<close> deletes exactly the documents whose \<open>scrapedAt\<close> is
  earlier than the cutoff and whose status is not \<open>flagged\<close>, the cutoff being the instant
  with the local wall-clock time of now, \<open>maxAgeDays\<close> calendar days earlier; that is now
  minus \<open>maxAgeDays\<close> days of 24 hours when the zone's offset is the same at both. The
  documents that remain are the others, as they were; the count returned is the number
  deleted; a flagged document is never deleted, whatever its age.
\<close>

theorem cleanup_deletes_old_unflagged:
  "fst (cleanup tz now maxAgeDays st)
     = filter (\<lambda>d. \<not> (scrapedAt d < cutoffDate tz now maxAgeDays \<and> status d \<noteq> Flagged)) st
   \<and> set st - set (fst (cleanup tz now maxAgeDays st))
     = {d \<in> set st. scrapedAt d < cutoffDate tz now maxAgeDays \<and> status d \<noteq> Flagged}
   \<and> snd (cleanup tz now maxAgeDays st)
     = length (filter (\<lambda>d. scrapedAt d < cutoffDate tz now maxAgeDays \<and> status d \<noteq> Flagged) st)
   \<and> (\<forall>d \<in> set st. status d = Flagged \<longrightarrow> d \<in> set (fst (cleanup tz now maxAgeDays st)))
   \<and> cutoffDate tz now maxAgeDays
     = now + offset_of_utc tz now - maxAgeDays * 86400000
       - offset_of_local tz (now + offset_of_utc tz now - maxAgeDays * 86400000)
   \<and> (offset_of_local tz (now + offset_of_utc tz now - maxAgeDays * 86400000) = offset_of_utc tz now
        \<longrightarrow> cutoffDate tz now maxAgeDays = now - maxAgeDays * 86400000)"
  by (auto simp: cleanup_def cleanup_matches_def [abs_def] cutoffDate_def Let_def)

theorem cleanup_deletes_old_unflagged_witness:
  "cleanup \<lparr>offset_of_utc = (\<lambda>t. 0), offset_of_local = (\<lambda>l. 0)\<rparr> 8640000000 90
     [\<lparr>contentHash = ''a'', doc_url = ''u1'', doc_title = ''t1'', doc_props = Map.empty,
       status = Active, scrapedAt = 0, lastUpdated = 0, createdAt = 0, updatedAt = 0\<rparr>,
      \<lparr>contentHash = ''b'', doc_url = ''u2'', doc_title = ''t2'', doc_props = Map.empty,
       status = Flagged, scrapedAt = 0, lastUpdated = 0, createdAt = 0, updatedAt = 0\<rparr>,
      \<lparr>contentHash = ''c'', doc_url = ''u3'', doc_title = ''t3'', doc_props = Map.empty,
       status = Active, scrapedAt = 8000000000, lastUpdated = 0, createdAt = 0, updatedAt = 0\<rparr>]
   = ([\<lparr>contentHash = ''b'', doc_url = ''u2'', doc_title = ''t2'', doc_props = Map.empty,
       status = Flagged, scrapedAt = 0, lastUpdated = 0, createdAt = 0, updatedAt = 0\<rparr>,
      \<lparr>contentHash = ''c'', doc_url = ''u3'', doc_title = ''t3'', doc_props = Map.empty,
       status = Active, scrapedAt = 8000000000, lastUpdated = 0, createdAt = 0, updatedAt = 0\<rparr>], 1)
   \<and> cutoffDate \<lparr>offset_of_utc = (\<lambda>t. 0), offset_of_local = (\<lambda>l. 0)\<rparr> 8640000000 90 = 864000000"
proof -
  let ?tz = "\<lparr>offset_of_utc = (\<lambda>t. 0), offset_of_local = (\<lambda>l. 0)\<rparr>"
  let ?st = "[\<lparr>contentHash = ''a'', doc_url = ''u1'', doc_title = ''t1'', doc_props = Map.empty,
       status = Active, scrapedAt = 0, lastUpdated = 0, createdAt = 0, updatedAt = 0\<rparr>,
      \<lparr>contentHash = ''b'', doc_url = ''u2'', doc_title = ''t2'', doc_props = Map.empty,
       status = Flagged, scrapedAt = 0, lastUpdated = 0, createdAt = 0, updatedAt = 0\<rparr>,
      \<lparr>contentHash = ''c'', doc_url = ''u3'', doc_title = ''t3'', doc_props = Map.empty,
       status = Active, scrapedAt = 8000000000, lastUpdated = 0, createdAt = 0, updatedAt = 0\<rparr>]"
  have c: "cutoffDate ?tz 8640000000 90 = 864000000"
    using cleanup_deletes_old_unflagged [of ?tz 8640000000 90 ?st] by simp
  have "fst (cleanup ?tz 8640000000 90 ?st) = filter (\<lambda>d. \<not> (scrapedAt d < 864000000 \<and> status d \<noteq> Flagged)) ?st"
    "snd (cleanup ?tz 8640000000 90 ?st) = length (filter (\<lambda>d. scrapedAt d < 864000000 \<and> status d \<noteq> Flagged) ?st)"
    using cleanup_deletes_old_unflagged [of ?tz 8640000000 90 ?st] unfolding c by blast+
  then have "fst (cleanup ?tz 8640000000 90 ?st) = [?st ! 1, ?st ! 2]" "snd (cleanup ?tz 8640000000 90 ?st) = 1"
    by simp_all
  then have "cleanup ?tz 8640000000 90 ?st = ([?st ! 1, ?st ! 2], 1)"
    by (simp add: prod_eq_iff)
  then show ?thesis using c by simp
qed

section \<open>Terminal transitions of the run log\<close>

text \<open>
  C3 as stated fails: a log that \<open>fail\<close> has closed at time 10 is reopened by a later
  \<open>complete\<close> at time 20, which replaces status, \<open>endedAt\<close> and \<open>duration\<close>.
\<close>

theorem terminal_transition_not_final_counterexample:
  "terminal (log_status (fail 10 10 (APIError ''boom'' 500 None) (startSession 0)))
   \<and> log_status (complete 20 \<lparr>a_found = None, a_inserted = None, a_updated = None,
         a_duplicates = None, a_failed = None, a_urlsProcessed = None, a_urlsFailed = None\<rparr>
        (fail 10 10 (APIError ''boom'' 500 None) (startSession 0))) = Completed
   \<and> log_status (fail 10 10 (APIError ''boom'' 500 None) (startSession 0)) = Failed
   \<and> endedAt (complete 20 \<lparr>a_found = None, a_inserted = None, a_updated = None,
         a_duplicates = None, a_failed = None, a_urlsProcessed = None, a_urlsFailed = None\<rparr>
        (fail 10 10 (APIError ''boom'' 500 None) (startSession 0))) = Some 20
   \<and> endedAt (fail 10 10 (APIError ''boom'' 500 None) (startSession 0)) = Some 10
   \<and> duration (complete 20 \<lparr>a_found = None, a_inserted = None, a_updated = None,
         a_duplicates = None, a_failed = None, a_urlsProcessed = None, a_urlsFailed = None\<rparr>
        (fail 10 10 (APIError ''boom'' 500 None) (startSession 0))) = 20
   \<and> duration (fail 10 10 (APIError ''boom'' 500 None) (startSession 0)) = 10"
  by (simp add: terminal_def complete_def fail_def startSession_def APIError_def Let_def)

text \<open>
  C3 as amended: \<open>complete\<close>, \<open>fail\<close> and \<open>cancel\<close> carry no guard. Whatever the status
  of the log, each sets its own status, sets \<open>endedAt\<close> to the current time and \<open>duration\<close>
  to that time minus \<open>startedAt\<close>, and leaves \<open>startedAt\<close> alone; so of several terminal
  calls the last one decides.
\<close>

theorem terminal_calls_overwrite:
  "log_status (complete now a l) = Completed
   \<and> endedAt (complete now a l) = Some now
   \<and> duration (complete now a l) = now - startedAt l
   \<and> startedAt (complete now a l) = startedAt l
   \<and> log_status (fail now now' e l) = Failed
   \<and> endedAt (fail now now' e l) = Some now
   \<and> duration (fail now now' e l) = now - startedAt l
   \<and> startedAt (fail now now' e l) = startedAt l
   \<and> log_status (cancel now l) = Cancelled
   \<and> endedAt (cancel now l) = Some now
   \<and> duration (cancel now l) = now - startedAt l
   \<and> startedAt (cancel now l) = startedAt l"
  by (simp add: complete_def fail_def cancel_def Let_def)

section \<open>Robots cache: allow on error\<close>










section \<open>The request loop\<close>

declare request_loop.simps [simp del]

lemma loop_exit:
  "\<not> int a < m \<Longrightarrow> request_loop env u m a i s = (Inr None, s)"
  by (subst request_loop.simps) simp

lemma loop_fetched:
  "int a < m \<Longrightarrow> outcome_at env i = Fetched h \<Longrightarrow>
   request_loop env u m a i s =
     (Inr (Some h), s\<lparr>io_trace := io_trace s @ [Attempt u],
                       processedUrls := set_add u (processedUrls s),
                       retryAttempts := (retryAttempts s)(u := None)\<rparr>)"
  by (subst request_loop.simps) (simp add: try_block_def)

lemma loop_robots:
  "int a < m \<Longrightarrow> outcome_at env i = RobotsBlocked \<Longrightarrow>
   request_loop env u m a i s =
     (Inl (APIError (''Robots disallowed: '' @ u) 403 (Some ''ROBOTS_DISALLOWED'')),
      s\<lparr>io_trace := io_trace s @ [Attempt u],
        scrapingLog := addWarning (now_at env i) ''Robots blocked URL (skipped)'' (Some u) (scrapingLog s),
        retryAttempts := (retryAttempts s)(u \<mapsto> Suc a),
        failedUrls := set_add u (failedUrls s)\<rparr>)"
  by (subst request_loop.simps) (simp add: try_block_def APIError_def Let_def)

lemma loop_failed_robots_like:
  "int a < m \<Longrightarrow> outcome_at env i = FetchFailed e \<Longrightarrow> robots_like e \<Longrightarrow>
   request_loop env u m a i s =
     (Inl e, s\<lparr>io_trace := io_trace s @ [Attempt u],
               retryAttempts := (retryAttempts s)(u \<mapsto> Suc a),
               failedUrls := set_add u (failedUrls s)\<rparr>)"
  by (subst request_loop.simps) (auto simp: try_block_def robots_like_def Let_def)

lemma loop_failed_last:
  "int a < m \<Longrightarrow> outcome_at env i = FetchFailed e \<Longrightarrow> \<not> robots_like e \<Longrightarrow> m \<le> int (Suc a) \<Longrightarrow>
   request_loop env u m a i s =
     (Inl (ScrapingError (''Failed to fetch '' @ u @ '' after '' @ show_nat (nat m)
                          @ '' attempts: '' @ err_message e) (Some u)),
      s\<lparr>io_trace := io_trace s @ [Attempt u],
        retryAttempts := (retryAttempts s)(u \<mapsto> Suc a),
        scrapingLog := addError (now_at env i) (if err_name e = [] then ''RequestError'' else err_name e)
                         (err_message e) (Some u) (Suc a) (scrapingLog s),
        failedUrls := set_add u (failedUrls s)\<rparr>)"
  by (subst request_loop.simps) (simp add: try_block_def robots_like_def Let_def)

lemma loop_failed_retry:
  "int a < m \<Longrightarrow> outcome_at env i = FetchFailed e \<Longrightarrow> \<not> robots_like e \<Longrightarrow> int (Suc a) < m \<Longrightarrow>
   request_loop env u m a i s =
     request_loop env u m (Suc a) (Suc i)
       (s\<lparr>io_trace := io_trace s @ [Attempt u, Sleep (setTimeout_delay (backoff (Suc a) (random_at env i)))],
          retryAttempts := (retryAttempts s)(u \<mapsto> Suc a),
          scrapingLog := addError (now_at env i) (if err_name e = [] then ''RequestError'' else err_name e)
                           (err_message e) (Some u) (Suc a) (scrapingLog s)\<rparr>)"
  apply (subst request_loop.simps)
  apply (simp add: try_block_def robots_like_def Let_def)
  apply (intro conjI impI arg_cong [where f = "request_loop env u m (Suc a) (Suc i)"])
   apply simp_all
  done

lemma attempts_bounded:
  "length (filter is_attempt (io_trace (snd (request_loop env u m a i s))))
     \<le> length (filter is_attempt (io_trace s)) + nat (m - int a)"
proof (induction "nat (m - int a)" arbitrary: a i s)
  case 0
  then have "\<not> int a < m" by simp
  then show ?case by (simp add: loop_exit)
next
  case (Suc n)
  then have lt: "int a < m" by linarith
  have room: "1 \<le> nat (m - int a)" using lt by simp
  show ?case
  proof (cases "outcome_at env i")
    case RobotsBlocked
    then show ?thesis using room by (simp add: loop_robots [OF lt])
  next
    case (Fetched h)
    then show ?thesis using room by (simp add: loop_fetched [OF lt])
  next
    case (FetchFailed e)
    show ?thesis
    proof (cases "robots_like e")
      case True
      then show ?thesis using room by (simp add: loop_failed_robots_like [OF lt FetchFailed])
    next
      case False
      show ?thesis
      proof (cases "int (Suc a) < m")
        case last: False
        then have "m \<le> int (Suc a)" by simp
        then show ?thesis using room by (simp add: loop_failed_last [OF lt FetchFailed False])
      next
        case True
        have n: "n = nat (m - int (Suc a))" using Suc.hyps(2) by simp
        let ?s' = "s\<lparr>io_trace := io_trace s @ [Attempt u, Sleep (setTimeout_delay (backoff (Suc a) (random_at env i)))],
          retryAttempts := (retryAttempts s)(u \<mapsto> Suc a),
          scrapingLog := addError (now_at env i) (if err_name e = [] then ''RequestError'' else err_name e)
                           (err_message e) (Some u) (Suc a) (scrapingLog s)\<rparr>"
        have "length (filter is_attempt (io_trace (snd (request_loop env u m (Suc a) (Suc i) ?s'))))
            \<le> length (filter is_attempt (io_trace ?s')) + nat (m - int (Suc a))"
          by (rule Suc.hyps(1) [OF n])
        also have "\<dots> = length (filter is_attempt (io_trace s)) + nat (m - int a)"
          using True by simp
        finally show ?thesis
          by (simp only: loop_failed_retry [OF lt FetchFailed False True])
      qed
    qed
  qed
qed


text \<open>
  C4 as stated fails in its last part: the \<open>catch\<close> block counts the pass and stores the
  count before it looks at the kind of error. After one robots refusal the URL has one
  attempt on record; with a limit of one, the next call for it does not even enter the
  loop and returns \<open>undefined\<close>.
\<close>

theorem robots_block_consumes_attempt_counterexample:
  "retryAttempts (initial_scraper ''N'' ''news'' ''S'' [''u''] 500 [''webmethods''] (startSession 0)) ''u'' = None
   \<and> retryAttempts (snd (request \<lparr>outcome_at = (\<lambda>i. RobotsBlocked), random_at = (\<lambda>i. 0), now_at = (\<lambda>i. 7)\<rparr>
        3 ''u'' None (initial_scraper ''N'' ''news'' ''S'' [''u''] 500 [''webmethods''] (startSession 0)))) ''u'' = Some 1
   \<and> fst (request \<lparr>outcome_at = (\<lambda>i. RobotsBlocked), random_at = (\<lambda>i. 0), now_at = (\<lambda>i. 7)\<rparr> 1 ''u'' None
        (snd (request \<lparr>outcome_at = (\<lambda>i. RobotsBlocked), random_at = (\<lambda>i. 0), now_at = (\<lambda>i. 7)\<rparr>
           1 ''u'' None (initial_scraper ''N'' ''news'' ''S'' [''u''] 500 [''webmethods''] (startSession 0)))))
     = Inr None"
  by (simp add: request_def request_loop.simps try_block_def initial_scraper_def or_default_def
      APIError_def addWarning_def)

text \<open>
  C4 as amended: when the robots check disallows a URL whose stored attempts are below
  the limit, \<open>request\<close> makes that one pass and no more: it appends the warning to the run
  log, writes no error entry, sleeps not at all, records the URL as failed and throws the
  robots-disallowed error; and it raises the URL's stored attempt count by one.
\<close>

theorem robots_blocked_fails_immediately:
  assumes "outcome_at env 0 = RobotsBlocked"
    and "int (case retryAttempts s u of None \<Rightarrow> 0 | Some n \<Rightarrow> n) < or_default opt mr"
  shows "request env mr u opt s =
     (Inl (APIError (''Robots disallowed: '' @ u) 403 (Some ''ROBOTS_DISALLOWED'')),
      s\<lparr>io_trace := io_trace s @ [Attempt u],
        scrapingLog := (scrapingLog s)\<lparr>warnings := warnings (scrapingLog s) @
           [\<lparr>w_timestamp = now_at env 0, w_message = ''Robots blocked URL (skipped)'', w_url = Some u\<rparr>]\<rparr>,
        retryAttempts := (retryAttempts s)(u \<mapsto> Suc (case retryAttempts s u of None \<Rightarrow> 0 | Some n \<Rightarrow> n)),
        failedUrls := set_add u (failedUrls s)\<rparr>)"
  unfolding request_def using loop_robots [OF assms(2) assms(1)]
  by (simp add: addWarning_def)

theorem robots_blocked_fails_immediately_witness:
  "outcome_at \<lparr>outcome_at = (\<lambda>i. RobotsBlocked), random_at = (\<lambda>i. 0), now_at = (\<lambda>i. 7)\<rparr> 0 = RobotsBlocked
   \<and> int (case retryAttempts (initial_scraper ''N'' ''news'' ''S'' [''u''] 500 [''webmethods''] (startSession 0)) ''u''
            of None \<Rightarrow> 0 | Some n \<Rightarrow> n) < or_default None 3
   \<and> fst (request \<lparr>outcome_at = (\<lambda>i. RobotsBlocked), random_at = (\<lambda>i. 0), now_at = (\<lambda>i. 7)\<rparr> 3 ''u'' None
        (initial_scraper ''N'' ''news'' ''S'' [''u''] 500 [''webmethods''] (startSession 0)))
     = Inl (APIError ''Robots disallowed: u'' 403 (Some ''ROBOTS_DISALLOWED''))
   \<and> io_trace (snd (request \<lparr>outcome_at = (\<lambda>i. RobotsBlocked), random_at = (\<lambda>i. 0), now_at = (\<lambda>i. 7)\<rparr> 3 ''u'' None
        (initial_scraper ''N'' ''news'' ''S'' [''u''] 500 [''webmethods''] (startSession 0)))) = [Attempt ''u'']
   \<and> retryAttempts (snd (request \<lparr>outcome_at = (\<lambda>i. RobotsBlocked), random_at = (\<lambda>i. 0), now_at = (\<lambda>i. 7)\<rparr> 3 ''u'' None
        (initial_scraper ''N'' ''news'' ''S'' [''u''] 500 [''webmethods''] (startSession 0)))) ''u'' = Some 1"
proof -
  let ?env = "\<lparr>outcome_at = (\<lambda>i. RobotsBlocked), random_at = (\<lambda>i. 0), now_at = (\<lambda>i. 7)\<rparr>"
  let ?s = "initial_scraper ''N'' ''news'' ''S'' [''u''] 500 [''webmethods''] (startSession 0)"
  have h1: "outcome_at ?env 0 = RobotsBlocked" by simp
  have h2: "int (case retryAttempts ?s ''u'' of None \<Rightarrow> 0 | Some n \<Rightarrow> n) < or_default None 3"
    by (simp add: initial_scraper_def or_default_def)
  show ?thesis
    using h1 h2 robots_blocked_fails_immediately [OF h1 h2]
    by (simp add: initial_scraper_def)
qed






text \<open>
  C6 as stated fails: \<open>parseInt(...) || 3\<close> takes a configured 0 for no value, so
  \<open>MAX_RETRIES\<close> is 3 and a URL that keeps failing is fetched three times.
\<close>

theorem max_retries_zero_counterexample:
  "MAX_RETRIES (Some ''0'') = 3
   \<and> io_trace (snd (request \<lparr>outcome_at = (\<lambda>i. FetchFailed (APIError ''boom'' 500 None)), random_at = (\<lambda>i. 0),
                          now_at = (\<lambda>i. 7)\<rparr> (MAX_RETRIES (Some ''0'')) ''u'' None
        (initial_scraper ''N'' ''news'' ''S'' [''u''] 500 [''webmethods''] (startSession 0))))
     = [Attempt ''u'', Sleep 2000, Attempt ''u'', Sleep 4000, Attempt ''u'']"
  by (simp add: MAX_RETRIES_def parseInt_def or_default_def is_space_def is_digit_def digit_val_def Let_def
      request_def request_loop.simps try_block_def initial_scraper_def APIError_def backoff_def addError_def
      setTimeout_delay_def)

text \<open>
  C6 as amended: a \<open>MAX_RETRIES\<close> of 0, like a missing one, is replaced by 3. The limit in
  force counts passes: \<open>request\<close> makes at most as many as the limit exceeds the URL's
  stored attempts, so with a limit of 1 and nothing stored a failed fetch is not retried.
\<close>

theorem max_retries_bounds_attempts:
  "MAX_RETRIES (Some ''0'') = 3 \<and> MAX_RETRIES None = 3 \<and> MAX_RETRIES (Some ''1'') = 1
   \<and> length (filter is_attempt (io_trace (snd (request env mr u opt s))))
       \<le> length (filter is_attempt (io_trace s))
         + nat (or_default opt mr - int (case retryAttempts s u of None \<Rightarrow> 0 | Some n \<Rightarrow> n))"
proof (intro conjI)
  show "MAX_RETRIES (Some ''0'') = 3"
    by (simp add: MAX_RETRIES_def parseInt_def or_default_def is_space_def is_digit_def digit_val_def Let_def)
  show "MAX_RETRIES None = 3"
    by (simp add: MAX_RETRIES_def parseInt_def or_default_def)
  show "MAX_RETRIES (Some ''1'') = 1"
    by (simp add: MAX_RETRIES_def parseInt_def or_default_def is_space_def is_digit_def digit_val_def Let_def)
  show "length (filter is_attempt (io_trace (snd (request env mr u opt s))))
       \<le> length (filter is_attempt (io_trace s))
         + nat (or_default opt mr - int (case retryAttempts s u of None \<Rightarrow> 0 | Some n \<Rightarrow> n))"
    unfolding request_def by (rule attempts_bounded)
qed

section \<open>The run: what is found and what is saved\<close>

lemma addItem_irrelevant: "\<not> isRelevant (cfg_keywords s) it \<Longrightarrow> addItem it s = s"
  by (simp add: addItem_def)

lemma fold_addItem_irrelevant:
  "\<forall>c \<in> set cs. \<not> isRelevant (cfg_keywords s) c \<Longrightarrow> fold addItem cs s = s"
  by (induction cs) (simp_all add: addItem_irrelevant)

lemma addItem_config [simp]:
  "maxItems (addItem it s) = maxItems s" "cfg_keywords (addItem it s) = cfg_keywords s"
  "scrapingLog (addItem it s) = scrapingLog s" "processedUrls (addItem it s) = processedUrls s"
  "failedUrls (addItem it s) = failedUrls s"
  by (simp_all add: addItem_def Let_def)

lemma fold_addItem_config [simp]:
  "maxItems (fold addItem cs s) = maxItems s" "cfg_keywords (fold addItem cs s) = cfg_keywords s"
  "scrapingLog (fold addItem cs s) = scrapingLog s" "processedUrls (fold addItem cs s) = processedUrls s"
  "failedUrls (fold addItem cs s) = failedUrls s"
  by (induction cs arbitrary: s) simp_all

lemma fold_addWarning_status:
  "log_status (fold (\<lambda>u. addWarning t m (Some u)) us l) = log_status l"
  by (induction us arbitrary: l) (simp_all add: addWarning_def)

lemma run_scraped_config [simp]:
  "maxItems (run_scraped env s) = maxItems s"
  "log_status (scrapingLog (run_scraped env s)) = Running"
  by (simp_all add: run_scraped_def scrapeSource_def run_prepared_def fold_addWarning_status startSession_def)

lemma run_unfold:
  assumes "session_opens s triggeredBy"
    and "\<exists>u \<in> set (initialUrls s). robots_allows env u" and "thrown (adapter env) = None"
  shows "run sha env triggeredBy s st =
     (case processAndSaveItems sha (store_clock env) (store_error env)
             (scrapedItems (run_scraped env s)) (run_scraped env s) st of
        (Inl e, st') \<Rightarrow> run_catch env e (run_scraped env s) st'
      | (Inr sv, st') \<Rightarrow>
          (Returned True,
           (run_scraped env s)\<lparr>scrapingLog :=
              complete (t_end env)
                \<lparr>a_found = Some (int (length (scrapedItems (run_scraped env s)))),
                 a_inserted = Some (s_inserted sv),
                 a_updated = Some (s_modified sv),
                 a_duplicates = Some (s_total sv - s_inserted sv - s_modified sv),
                 a_failed = Some (s_failed sv),
                 a_urlsProcessed = Some (int (length (processedUrls (run_scraped env s)))),
                 a_urlsFailed = Some (int (length (failedUrls (run_scraped env s))))\<rparr>
                (scrapingLog (run_scraped env s))\<rparr>,
           st'))"
proof -
  have ok: "session_invalid (sc_name s) (sc_sourceName s)
              (case triggeredBy of None \<Rightarrow> Some ''manual'' | Some t \<Rightarrow> Some t) = None"
    using assms(1) by (simp add: session_opens_def)
  have ne: "filter (robots_allows env) (initialUrls s) \<noteq> []"
    using assms(2) by (auto simp: filter_empty_conv)
  have sc: "scrapeSource (adapter env) (run_prepared env s) = (None, run_scraped env s)"
    using assms(3) by (simp add: run_scraped_def scrapeSource_def)
  show ?thesis
    unfolding run_def Let_def ok using ne sc
    by (simp add: run_prepared_def)
qed

lemma session_opens_example:
  "session_opens (initial_scraper ''N'' ''news'' ''S'' urls m kws l) None"
proof -
  have "trim ''N'' = ''N''" "trim ''S'' = ''S''" by code_simp+
  then show ?thesis
    by (simp add: session_opens_def session_invalid_def triggeredBy_enum_def initial_scraper_def Let_def)
qed

text \<open>
  A run started with the controller's default \<open>'api_manual'\<close>, which is not a value of the
  log's \<open>triggeredBy\<close>, is rejected by \<open>startSession\<close>: nothing is scraped or saved and no
  log is opened.
\<close>

lemma run_rejects_unknown_trigger:
  "fst (run sha env (Some ''api_manual'')
         (initial_scraper ''N'' ''news'' ''S'' urls m kws l) st)
     = Rejected \<lparr>err_name = ''ValidationError'',
                 err_message = ''ScrapingLog validation failed: triggeredBy'',
                 errorCode = None, statusCode = None, err_source = None\<rparr>
   \<and> scrapingLog (fst (snd (run sha env (Some ''api_manual'')
         (initial_scraper ''N'' ''news'' ''S'' urls m kws l) st))) = l
   \<and> snd (snd (run sha env (Some ''api_manual'')
         (initial_scraper ''N'' ''news'' ''S'' urls m kws l) st)) = st"
proof -
  have "trim ''N'' = ''N''" "trim ''S'' = ''S''" by code_simp+
  then show ?thesis
    by (simp add: run_def session_invalid_def triggeredBy_enum_def initial_scraper_def Let_def)
qed

text \<open>
  C9 as stated fails: \<open>found\<close> is the number of items that \<open>addItem\<close> kept, so a run whose
  only candidate fails the relevance filter ends completed with \<open>inserted = 0\<close> and
  \<open>found = 0\<close>.
\<close>

theorem all_filtered_found_counterexample:
  "\<not> isRelevant [''webmethods'']
        \<lparr>item_url = ''https://ex.com/b'', item_title = ''Unrelated'', item_props = Map.empty\<rparr>
   \<and> fst (run (\<lambda>x. x)
        \<lparr>robots_allows = (\<lambda>u. True),
         adapter = \<lparr>requests_ok = [''https://feed''], requests_failed = [],
                    candidates = [\<lparr>item_url = ''https://ex.com/b'', item_title = ''Unrelated'',
                                   item_props = Map.empty\<rparr>],
                    thrown = None\<rparr>,
         t_start = 0, t_end = 5, store_clock = (\<lambda>k. 3), store_error = None\<rparr>
        None (initial_scraper ''N'' ''news'' ''S'' [''https://feed''] 500 [''webmethods''] (startSession 0))
        []) = Returned True
   \<and> log_status (scrapingLog (fst (snd (run (\<lambda>x. x)
        \<lparr>robots_allows = (\<lambda>u. True),
         adapter = \<lparr>requests_ok = [''https://feed''], requests_failed = [],
                    candidates = [\<lparr>item_url = ''https://ex.com/b'', item_title = ''Unrelated'',
                                   item_props = Map.empty\<rparr>],
                    thrown = None\<rparr>,
         t_start = 0, t_end = 5, store_clock = (\<lambda>k. 3), store_error = None\<rparr>
        None (initial_scraper ''N'' ''news'' ''S'' [''https://feed''] 500 [''webmethods''] (startSession 0))
        [])))) = Completed
   \<and> r_inserted (results (scrapingLog (fst (snd (run (\<lambda>x. x)
        \<lparr>robots_allows = (\<lambda>u. True),
         adapter = \<lparr>requests_ok = [''https://feed''], requests_failed = [],
                    candidates = [\<lparr>item_url = ''https://ex.com/b'', item_title = ''Unrelated'',
                                   item_props = Map.empty\<rparr>],
                    thrown = None\<rparr>,
         t_start = 0, t_end = 5, store_clock = (\<lambda>k. 3), store_error = None\<rparr>
        None (initial_scraper ''N'' ''news'' ''S'' [''https://feed''] 500 [''webmethods''] (startSession 0))
        []))))) = 0
   \<and> found (results (scrapingLog (fst (snd (run (\<lambda>x. x)
        \<lparr>robots_allows = (\<lambda>u. True),
         adapter = \<lparr>requests_ok = [''https://feed''], requests_failed = [],
                    candidates = [\<lparr>item_url = ''https://ex.com/b'', item_title = ''Unrelated'',
                                   item_props = Map.empty\<rparr>],
                    thrown = None\<rparr>,
         t_start = 0, t_end = 5, store_clock = (\<lambda>k. 3), store_error = None\<rparr>
        None (initial_scraper ''N'' ''news'' ''S'' [''https://feed''] 500 [''webmethods''] (startSession 0))
        []))))) = 0"
proof -
  let ?env = "\<lparr>robots_allows = (\<lambda>u. True),
         adapter = \<lparr>requests_ok = [''https://feed''], requests_failed = [],
                    candidates = [\<lparr>item_url = ''https://ex.com/b'', item_title = ''Unrelated'',
                                   item_props = Map.empty\<rparr>],
                    thrown = None\<rparr>,
         t_start = 0, t_end = 5, store_clock = (\<lambda>k. 3), store_error = None\<rparr>"
  let ?s = "initial_scraper ''N'' ''news'' ''S'' [''https://feed''] 500 [''webmethods''] (startSession 0)"
  have irr: "\<not> isRelevant [''webmethods'']
        \<lparr>item_url = ''https://ex.com/b'', item_title = ''Unrelated'', item_props = Map.empty\<rparr>"
    by (simp add: isRelevant_def item_text_def text_of_def spread_def toLowerCase_def lower_char_def)
  have ex: "\<exists>u \<in> set (initialUrls ?s). robots_allows ?env u"
    by (simp add: initial_scraper_def)
  have th: "thrown (adapter ?env) = None"
    by simp
  have none: "scrapedItems (run_scraped ?env ?s) = []"
    using irr by (simp add: run_scraped_def scrapeSource_def run_prepared_def addItem_def
        initial_scraper_def)
  show ?thesis
    unfolding run_unfold [OF session_opens_example ex th] using irr
    by (simp add: none processAndSaveItems_def complete_def merge_results_def or_keep_def Let_def)
qed

text \<open>
  C9 as amended: if every candidate an adapter hands to \<open>addItem\<close> fails the relevance
  filter, and the run is not cut short (the session opens, that is \<open>triggeredBy\<close> is a
  value the log accepts and the scraper's names are not blank; some initial URL passes the
  robots check; the adapter throws nothing), the run ends with status completed,
  \<open>inserted = 0\<close> and \<open>found = 0\<close>, and the store is not touched.
\<close>

theorem all_filtered_run_completes_empty:
  assumes "\<forall>c \<in> set (candidates (adapter env)). \<not> isRelevant (cfg_keywords s) c"
    and "session_opens s triggeredBy"
    and "\<exists>u \<in> set (initialUrls s). robots_allows env u"
    and "thrown (adapter env) = None"
  shows "fst (run sha env triggeredBy s st) = Returned True
     \<and> log_status (scrapingLog (fst (snd (run sha env triggeredBy s st)))) = Completed
     \<and> r_inserted (results (scrapingLog (fst (snd (run sha env triggeredBy s st))))) = 0
     \<and> found (results (scrapingLog (fst (snd (run sha env triggeredBy s st))))) = 0
     \<and> snd (snd (run sha env triggeredBy s st)) = st"
proof -
  let ?p = "(run_prepared env s)\<lparr>processedUrls := fold set_add (requests_ok (adapter env)) (processedUrls (run_prepared env s)),
           failedUrls := fold set_add (requests_failed (adapter env)) (failedUrls (run_prepared env s))\<rparr>"
  have "\<forall>c \<in> set (candidates (adapter env)). \<not> isRelevant (cfg_keywords ?p) c"
    using assms(1) by (simp add: run_prepared_def)
  then have "fold addItem (candidates (adapter env)) ?p = ?p"
    by (rule fold_addItem_irrelevant)
  then have none: "scrapedItems (run_scraped env s) = []"
    by (simp add: run_scraped_def scrapeSource_def run_prepared_def)
  show ?thesis
    unfolding run_unfold [OF assms(2,3,4)]
    by (simp add: none processAndSaveItems_def complete_def merge_results_def or_keep_def Let_def)
qed

theorem all_filtered_run_completes_empty_witness:
  "\<not> isRelevant [''webmethods'']
        \<lparr>item_url = ''https://ex.com/b'', item_title = ''Unrelated'', item_props = Map.empty\<rparr>
   \<and> session_opens (initial_scraper ''N'' ''news'' ''S'' [''https://feed''] 500 [''webmethods''] (startSession 0)) None
   \<and> thrown (adapter \<lparr>robots_allows = (\<lambda>u. True),
         adapter = \<lparr>requests_ok = [''https://feed''], requests_failed = [],
                    candidates = [\<lparr>item_url = ''https://ex.com/b'', item_title = ''Unrelated'',
                                   item_props = Map.empty\<rparr>],
                    thrown = None\<rparr>,
         t_start = 0, t_end = 5, store_clock = (\<lambda>k. 3), store_error = None\<rparr>) = None
   \<and> fst (run (\<lambda>x. x)
        \<lparr>robots_allows = (\<lambda>u. True),
         adapter = \<lparr>requests_ok = [''https://feed''], requests_failed = [],
                    candidates = [\<lparr>item_url = ''https://ex.com/b'', item_title = ''Unrelated'',
                                   item_props = Map.empty\<rparr>],
                    thrown = None\<rparr>,
         t_start = 0, t_end = 5, store_clock = (\<lambda>k. 3), store_error = None\<rparr>
        None (initial_scraper ''N'' ''news'' ''S'' [''https://feed''] 500 [''webmethods''] (startSession 0))
        []) = Returned True
   \<and> log_status (scrapingLog (fst (snd (run (\<lambda>x. x)
        \<lparr>robots_allows = (\<lambda>u. True),
         adapter = \<lparr>requests_ok = [''https://feed''], requests_failed = [],
                    candidates = [\<lparr>item_url = ''https://ex.com/b'', item_title = ''Unrelated'',
                                   item_props = Map.empty\<rparr>],
                    thrown = None\<rparr>,
         t_start = 0, t_end = 5, store_clock = (\<lambda>k. 3), store_error = None\<rparr>
        None (initial_scraper ''N'' ''news'' ''S'' [''https://feed''] 500 [''webmethods''] (startSession 0))
        [])))) = Completed
   \<and> found (results (scrapingLog (fst (snd (run (\<lambda>x. x)
        \<lparr>robots_allows = (\<lambda>u. True),
         adapter = \<lparr>requests_ok = [''https://feed''], requests_failed = [],
                    candidates = [\<lparr>item_url = ''https://ex.com/b'', item_title = ''Unrelated'',
                                   item_props = Map.empty\<rparr>],
                    thrown = None\<rparr>,
         t_start = 0, t_end = 5, store_clock = (\<lambda>k. 3), store_error = None\<rparr>
        None (initial_scraper ''N'' ''news'' ''S'' [''https://feed''] 500 [''webmethods''] (startSession 0))
        []))))) = 0
   \<and> snd (snd (run (\<lambda>x. x)
        \<lparr>robots_allows = (\<lambda>u. True),
         adapter = \<lparr>requests_ok = [''https://feed''], requests_failed = [],
                    candidates = [\<lparr>item_url = ''https://ex.com/b'', item_title = ''Unrelated'',
                                   item_props = Map.empty\<rparr>],
                    thrown = None\<rparr>,
         t_start = 0, t_end = 5, store_clock = (\<lambda>k. 3), store_error = None\<rparr>
        None (initial_scraper ''N'' ''news'' ''S'' [''https://feed''] 500 [''webmethods''] (startSession 0))
        [])) = []"
proof -
  let ?env = "\<lparr>robots_allows = (\<lambda>u. True),
         adapter = \<lparr>requests_ok = [''https://feed''], requests_failed = [],
                    candidates = [\<lparr>item_url = ''https://ex.com/b'', item_title = ''Unrelated'',
                                   item_props = Map.empty\<rparr>],
                    thrown = None\<rparr>,
         t_start = 0, t_end = 5, store_clock = (\<lambda>k. 3), store_error = None\<rparr>"
  let ?s = "(initial_scraper ''N'' ''news'' ''S'' [''https://feed''] 500 [''webmethods''] (startSession 0))"
  have irr: "\<not> isRelevant [''webmethods'']
        \<lparr>item_url = ''https://ex.com/b'', item_title = ''Unrelated'', item_props = Map.empty\<rparr>"
    by (simp add: isRelevant_def item_text_def text_of_def spread_def toLowerCase_def lower_char_def)
  have h1: "\<forall>c \<in> set (candidates (adapter ?env)). \<not> isRelevant (cfg_keywords ?s) c"
    using irr by (simp add: initial_scraper_def)
  have h2: "session_opens ?s None" by (rule session_opens_example)
  have h3: "\<exists>u \<in> set (initialUrls ?s). robots_allows ?env u" by (simp add: initial_scraper_def)
  have h4: "thrown (adapter ?env) = None" by simp
  show ?thesis
    using irr h2 all_filtered_run_completes_empty [OF h1 h2 h3 h4, of "\<lambda>x. x" "[]"] by simp
qed

lemma slice0_nonneg: "0 \<le> e \<Longrightarrow> slice0 e xs = take (nat e) xs"
  by (simp add: slice0_def Let_def min_def)

lemma slice0_neg: "e < 0 \<Longrightarrow> slice0 e xs = take (length xs - nat (- e)) xs"
proof -
  assume e: "e < 0"
  have "nat (max (int (length xs) + e) 0) = length xs - nat (- e)"
    using e by (simp add: max_def) linarith
  then show ?thesis using e by (simp add: slice0_def Let_def)
qed

lemma length_slice0: "length (slice0 e xs) \<le> length xs"
  by (simp add: slice0_def Let_def)

lemma processAndSaveItems_ok:
  "processAndSaveItems sha clock None items s st =
     (if items = [] then (Inr \<lparr>s_inserted = 0, s_modified = 0, s_total = 0, s_failed = 0\<rparr>, st)
      else (Inr \<lparr>s_inserted = int (inserted (snd (bulkUpsert sha clock (slice0 (maxItems s) items) st))),
                 s_modified = int (modified (snd (bulkUpsert sha clock (slice0 (maxItems s) items) st))),
                 s_total = int (length (slice0 (maxItems s) items)),
                 s_failed = 0\<rparr>,
            fst (bulkUpsert sha clock (slice0 (maxItems s) items) st)))"
  by (simp add: processAndSaveItems_def snd_bulkUpsert split_beta Let_def)

lemma run_saved:
  assumes "session_opens s triggeredBy"
    and "\<exists>u \<in> set (initialUrls s). robots_allows env u"
    and "thrown (adapter env) = None"
    and "store_error env = None"
  shows "fst (run sha env triggeredBy s st) = Returned True
     \<and> scrapedItems (fst (snd (run sha env triggeredBy s st))) = scrapedItems (run_scraped env s)
     \<and> snd (snd (run sha env triggeredBy s st)) =
         (if scrapedItems (run_scraped env s) = [] then st
          else fst (bulkUpsert sha (store_clock env)
                     (slice0 (maxItems s) (scrapedItems (run_scraped env s))) st))
     \<and> found (results (scrapingLog (fst (snd (run sha env triggeredBy s st)))))
         = int (length (scrapedItems (run_scraped env s)))
     \<and> r_inserted (results (scrapingLog (fst (snd (run sha env triggeredBy s st)))))
         + updated (results (scrapingLog (fst (snd (run sha env triggeredBy s st)))))
         + duplicates (results (scrapingLog (fst (snd (run sha env triggeredBy s st)))))
         = int (length (slice0 (maxItems s) (scrapedItems (run_scraped env s))))"
  unfolding run_unfold [OF assms(1,2,3)] assms(4) processAndSaveItems_ok
  by (simp add: complete_def merge_results_def or_keep_def Let_def slice0_def)

lemma three_items_scraped:
  "length (scrapedItems (run_scraped \<lparr>robots_allows = (\<lambda>u. True),
         adapter = \<lparr>requests_ok = [''https://feed''], requests_failed = [],
                    candidates = [\<lparr>item_url = ''a'', item_title = ''w'', item_props = Map.empty\<rparr>,
                                  \<lparr>item_url = ''b'', item_title = ''w'', item_props = Map.empty\<rparr>,
                                  \<lparr>item_url = ''c'', item_title = ''w'', item_props = Map.empty\<rparr>],
                    thrown = None\<rparr>,
         t_start = 0, t_end = 5, store_clock = (\<lambda>k. 3), store_error = None\<rparr> (initial_scraper ''N'' ''news'' ''S'' [''https://feed''] m [''w''] (startSession 0)))) = 3"
proof -
  have lc: "toLowerCase ''w'' = ''w''" by code_simp
  show ?thesis
    by (simp add: run_scraped_def scrapeSource_def run_prepared_def addItem_def isRelevant_def
        item_text_def text_of_def spread_def lc initial_scraper_def Let_def)
qed

text \<open>
  C10 as stated fails for a negative limit, which the configuration accepts:
  \<open>MAX_ITEMS_PER_CATEGORY=-1\<close> gives \<open>maxItems = -1\<close>, and \<open>slice(0, -1)\<close> keeps all items but
  the last. Of three scraped items two are passed to \<open>bulkUpsert\<close>, more than \<open>maxItems\<close>.
\<close>

theorem negative_maxItems_counterexample:
  "config_maxItems (Some ''-1'') None = - 1
   \<and> found (results (scrapingLog (fst (snd (run (\<lambda>x. x)
        \<lparr>robots_allows = (\<lambda>u. True),
         adapter = \<lparr>requests_ok = [''https://feed''], requests_failed = [],
                    candidates = [\<lparr>item_url = ''a'', item_title = ''w'', item_props = Map.empty\<rparr>,
                                  \<lparr>item_url = ''b'', item_title = ''w'', item_props = Map.empty\<rparr>,
                                  \<lparr>item_url = ''c'', item_title = ''w'', item_props = Map.empty\<rparr>],
                    thrown = None\<rparr>,
         t_start = 0, t_end = 5, store_clock = (\<lambda>k. 3), store_error = None\<rparr>
        None (initial_scraper ''N'' ''news'' ''S'' [''https://feed''] (- 1) [''w''] (startSession 0))
        []))))) = 3
   \<and> r_inserted (results (scrapingLog (fst (snd (run (\<lambda>x. x)
        \<lparr>robots_allows = (\<lambda>u. True),
         adapter = \<lparr>requests_ok = [''https://feed''], requests_failed = [],
                    candidates = [\<lparr>item_url = ''a'', item_title = ''w'', item_props = Map.empty\<rparr>,
                                  \<lparr>item_url = ''b'', item_title = ''w'', item_props = Map.empty\<rparr>,
                                  \<lparr>item_url = ''c'', item_title = ''w'', item_props = Map.empty\<rparr>],
                    thrown = None\<rparr>,
         t_start = 0, t_end = 5, store_clock = (\<lambda>k. 3), store_error = None\<rparr>
        None (initial_scraper ''N'' ''news'' ''S'' [''https://feed''] (- 1) [''w''] (startSession 0))
        []))))) + updated (results (scrapingLog (fst (snd (run (\<lambda>x. x)
        \<lparr>robots_allows = (\<lambda>u. True),
         adapter = \<lparr>requests_ok = [''https://feed''], requests_failed = [],
                    candidates = [\<lparr>item_url = ''a'', item_title = ''w'', item_props = Map.empty\<rparr>,
                                  \<lparr>item_url = ''b'', item_title = ''w'', item_props = Map.empty\<rparr>,
                                  \<lparr>item_url = ''c'', item_title = ''w'', item_props = Map.empty\<rparr>],
                    thrown = None\<rparr>,
         t_start = 0, t_end = 5, store_clock = (\<lambda>k. 3), store_error = None\<rparr>
        None (initial_scraper ''N'' ''news'' ''S'' [''https://feed''] (- 1) [''w''] (startSession 0))
        []))))) + duplicates (results (scrapingLog (fst (snd (run (\<lambda>x. x)
        \<lparr>robots_allows = (\<lambda>u. True),
         adapter = \<lparr>requests_ok = [''https://feed''], requests_failed = [],
                    candidates = [\<lparr>item_url = ''a'', item_title = ''w'', item_props = Map.empty\<rparr>,
                                  \<lparr>item_url = ''b'', item_title = ''w'', item_props = Map.empty\<rparr>,
                                  \<lparr>item_url = ''c'', item_title = ''w'', item_props = Map.empty\<rparr>],
                    thrown = None\<rparr>,
         t_start = 0, t_end = 5, store_clock = (\<lambda>k. 3), store_error = None\<rparr>
        None (initial_scraper ''N'' ''news'' ''S'' [''https://feed''] (- 1) [''w''] (startSession 0))
        []))))) = 2"
proof -
  let ?env = "\<lparr>robots_allows = (\<lambda>u. True),
         adapter = \<lparr>requests_ok = [''https://feed''], requests_failed = [],
                    candidates = [\<lparr>item_url = ''a'', item_title = ''w'', item_props = Map.empty\<rparr>,
                                  \<lparr>item_url = ''b'', item_title = ''w'', item_props = Map.empty\<rparr>,
                                  \<lparr>item_url = ''c'', item_title = ''w'', item_props = Map.empty\<rparr>],
                    thrown = None\<rparr>,
         t_start = 0, t_end = 5, store_clock = (\<lambda>k. 3), store_error = None\<rparr>"
  let ?s = "initial_scraper ''N'' ''news'' ''S'' [''https://feed''] (- 1) [''w''] (startSession 0)"
  have m: "config_maxItems (Some ''-1'') None = - 1"
    by (simp add: config_maxItems_def parseInt_def or_default_def is_space_def is_digit_def
        digit_val_def Let_def)
  have h2: "\<exists>u \<in> set (initialUrls ?s). robots_allows ?env u"
    by (simp add: initial_scraper_def)
  have h3: "thrown (adapter ?env) = None"
    by simp
  have h4: "store_error ?env = None"
    by simp
  have mx: "maxItems ?s = - 1"
    by (simp add: initial_scraper_def)
  obtain xs :: "item list" where xs: "scrapedItems (run_scraped ?env ?s) = xs" and n: "length xs = 3"
    using three_items_scraped [of "- 1"] by simp
  have sl: "length (slice0 (- 1) xs) = 2"
    using n by (simp add: slice0_def Let_def)
  show ?thesis
    using m run_saved [OF session_opens_example h2 h3 h4, of "\<lambda>x. x" "[]"]
    unfolding mx xs by (simp add: n sl)
qed

text \<open>
  C10 as amended: in every run that reaches the save (the session opens, an initial URL
  passes the robots check, the adapter throws nothing, the store answers), the items passed
  to \<open>bulkUpsert\<close> are \<open>items.slice(0, maxItems)\<close> of the scraped items, and
  \<open>inserted + updated + duplicates\<close> is their number, while \<open>found\<close> counts all scraped
  items. For a limit that is not negative (500 when neither the environment nor the
  constructor sets it) these are the first \<open>maxItems\<close> items, so at most \<open>maxItems\<close>, the rest
  being dropped unsaved, and \<open>found\<close> is the larger number as soon as more than \<open>maxItems\<close>
  items were scraped. For a negative limit they are all items but the last \<open>-maxItems\<close>.
\<close>

theorem maxItems_limits_saved_items:
  assumes "session_opens s triggeredBy"
    and "\<exists>u \<in> set (initialUrls s). robots_allows env u"
    and "thrown (adapter env) = None"
    and "store_error env = None"
  shows "config_maxItems None None = 500
     \<and> scrapedItems (fst (snd (run sha env triggeredBy s st))) = scrapedItems (run_scraped env s)
     \<and> snd (snd (run sha env triggeredBy s st)) =
         (if scrapedItems (run_scraped env s) = [] then st
          else fst (bulkUpsert sha (store_clock env)
                     (slice0 (maxItems s) (scrapedItems (run_scraped env s))) st))
     \<and> found (results (scrapingLog (fst (snd (run sha env triggeredBy s st)))))
         = int (length (scrapedItems (run_scraped env s)))
     \<and> r_inserted (results (scrapingLog (fst (snd (run sha env triggeredBy s st)))))
         + updated (results (scrapingLog (fst (snd (run sha env triggeredBy s st)))))
         + duplicates (results (scrapingLog (fst (snd (run sha env triggeredBy s st)))))
         = int (length (slice0 (maxItems s) (scrapedItems (run_scraped env s))))
     \<and> length (slice0 (maxItems s) (scrapedItems (run_scraped env s)))
         \<le> length (scrapedItems (run_scraped env s))
     \<and> (0 \<le> maxItems s \<longrightarrow>
          slice0 (maxItems s) (scrapedItems (run_scraped env s))
            = take (nat (maxItems s)) (scrapedItems (run_scraped env s))
          \<and> int (length (slice0 (maxItems s) (scrapedItems (run_scraped env s)))) \<le> maxItems s)
     \<and> (0 \<le> maxItems s \<and> nat (maxItems s) < length (scrapedItems (run_scraped env s)) \<longrightarrow>
          r_inserted (results (scrapingLog (fst (snd (run sha env triggeredBy s st)))))
          + updated (results (scrapingLog (fst (snd (run sha env triggeredBy s st)))))
          + duplicates (results (scrapingLog (fst (snd (run sha env triggeredBy s st)))))
          < found (results (scrapingLog (fst (snd (run sha env triggeredBy s st))))))
     \<and> (maxItems s < 0 \<longrightarrow>
          slice0 (maxItems s) (scrapedItems (run_scraped env s))
            = take (length (scrapedItems (run_scraped env s)) - nat (- maxItems s))
                (scrapedItems (run_scraped env s)))"
proof -
  have d: "config_maxItems None None = 500"
    by (simp add: config_maxItems_def parseInt_def or_default_def)
  have sv: "scrapedItems (fst (snd (run sha env triggeredBy s st))) = scrapedItems (run_scraped env s)"
    "snd (snd (run sha env triggeredBy s st)) =
         (if scrapedItems (run_scraped env s) = [] then st
          else fst (bulkUpsert sha (store_clock env)
                     (slice0 (maxItems s) (scrapedItems (run_scraped env s))) st))"
    "found (results (scrapingLog (fst (snd (run sha env triggeredBy s st)))))
         = int (length (scrapedItems (run_scraped env s)))"
    "r_inserted (results (scrapingLog (fst (snd (run sha env triggeredBy s st)))))
         + updated (results (scrapingLog (fst (snd (run sha env triggeredBy s st)))))
         + duplicates (results (scrapingLog (fst (snd (run sha env triggeredBy s st)))))
         = int (length (slice0 (maxItems s) (scrapedItems (run_scraped env s))))"
    using run_saved [OF assms, of sha st] by blast+
  have nonneg: "slice0 (maxItems s) (scrapedItems (run_scraped env s))
            = take (nat (maxItems s)) (scrapedItems (run_scraped env s))
          \<and> int (length (slice0 (maxItems s) (scrapedItems (run_scraped env s)))) \<le> maxItems s"
    if "0 \<le> maxItems s"
    using that by (simp add: slice0_nonneg)
  have strict: "r_inserted (results (scrapingLog (fst (snd (run sha env triggeredBy s st)))))
          + updated (results (scrapingLog (fst (snd (run sha env triggeredBy s st)))))
          + duplicates (results (scrapingLog (fst (snd (run sha env triggeredBy s st)))))
          < found (results (scrapingLog (fst (snd (run sha env triggeredBy s st)))))"
    if "0 \<le> maxItems s \<and> nat (maxItems s) < length (scrapedItems (run_scraped env s))"
proof -
    from that have m: "0 \<le> maxItems s" and l: "nat (maxItems s) < length (scrapedItems (run_scraped env s))"
      by simp_all
    have "length (take (nat (maxItems s)) (scrapedItems (run_scraped env s)))
        < length (scrapedItems (run_scraped env s))"
      using l by (simp only: length_take min_less_iff_disj) simp
    then have "int (length (slice0 (maxItems s) (scrapedItems (run_scraped env s))))
        < int (length (scrapedItems (run_scraped env s)))"
      by (simp only: slice0_nonneg [OF m] of_nat_less_iff)
    then show ?thesis by (simp only: sv)
  qed
  have neg: "slice0 (maxItems s) (scrapedItems (run_scraped env s))
            = take (length (scrapedItems (run_scraped env s)) - nat (- maxItems s))
                (scrapedItems (run_scraped env s))"
    if "maxItems s < 0"
    using that by (rule slice0_neg)
  show ?thesis
    using d sv length_slice0 [of "maxItems s" "scrapedItems (run_scraped env s)"] nonneg strict neg
    by blast
qed

theorem maxItems_limits_saved_items_witness:
  "session_opens (initial_scraper ''N'' ''news'' ''S'' [''https://feed''] 1 [''w''] (startSession 0)) None
   \<and> thrown (adapter \<lparr>robots_allows = (\<lambda>u. True),
         adapter = \<lparr>requests_ok = [''https://feed''], requests_failed = [],
                    candidates = [\<lparr>item_url = ''a'', item_title = ''w'', item_props = Map.empty\<rparr>,
                                  \<lparr>item_url = ''b'', item_title = ''w'', item_props = Map.empty\<rparr>,
                                  \<lparr>item_url = ''c'', item_title = ''w'', item_props = Map.empty\<rparr>],
                    thrown = None\<rparr>,
         t_start = 0, t_end = 5, store_clock = (\<lambda>k. 3), store_error = None\<rparr>) = None
   \<and> store_error \<lparr>robots_allows = (\<lambda>u. True),
         adapter = \<lparr>requests_ok = [''https://feed''], requests_failed = [],
                    candidates = [\<lparr>item_url = ''a'', item_title = ''w'', item_props = Map.empty\<rparr>,
                                  \<lparr>item_url = ''b'', item_title = ''w'', item_props = Map.empty\<rparr>,
                                  \<lparr>item_url = ''c'', item_title = ''w'', item_props = Map.empty\<rparr>],
                    thrown = None\<rparr>,
         t_start = 0, t_end = 5, store_clock = (\<lambda>k. 3), store_error = None\<rparr> = None
   \<and> 0 \<le> maxItems (initial_scraper ''N'' ''news'' ''S'' [''https://feed''] 1 [''w''] (startSession 0))
   \<and> found (results (scrapingLog (fst (snd (run (\<lambda>x. x)
        \<lparr>robots_allows = (\<lambda>u. True),
         adapter = \<lparr>requests_ok = [''https://feed''], requests_failed = [],
                    candidates = [\<lparr>item_url = ''a'', item_title = ''w'', item_props = Map.empty\<rparr>,
                                  \<lparr>item_url = ''b'', item_title = ''w'', item_props = Map.empty\<rparr>,
                                  \<lparr>item_url = ''c'', item_title = ''w'', item_props = Map.empty\<rparr>],
                    thrown = None\<rparr>,
         t_start = 0, t_end = 5, store_clock = (\<lambda>k. 3), store_error = None\<rparr>
        None (initial_scraper ''N'' ''news'' ''S'' [''https://feed''] 1 [''w''] (startSession 0))
        []))))) = 3
   \<and> r_inserted (results (scrapingLog (fst (snd (run (\<lambda>x. x)
        \<lparr>robots_allows = (\<lambda>u. True),
         adapter = \<lparr>requests_ok = [''https://feed''], requests_failed = [],
                    candidates = [\<lparr>item_url = ''a'', item_title = ''w'', item_props = Map.empty\<rparr>,
                                  \<lparr>item_url = ''b'', item_title = ''w'', item_props = Map.empty\<rparr>,
                                  \<lparr>item_url = ''c'', item_title = ''w'', item_props = Map.empty\<rparr>],
                    thrown = None\<rparr>,
         t_start = 0, t_end = 5, store_clock = (\<lambda>k. 3), store_error = None\<rparr>
        None (initial_scraper ''N'' ''news'' ''S'' [''https://feed''] 1 [''w''] (startSession 0))
        []))))) + updated (results (scrapingLog (fst (snd (run (\<lambda>x. x)
        \<lparr>robots_allows = (\<lambda>u. True),
         adapter = \<lparr>requests_ok = [''https://feed''], requests_failed = [],
                    candidates = [\<lparr>item_url = ''a'', item_title = ''w'', item_props = Map.empty\<rparr>,
                                  \<lparr>item_url = ''b'', item_title = ''w'', item_props = Map.empty\<rparr>,
                                  \<lparr>item_url = ''c'', item_title = ''w'', item_props = Map.empty\<rparr>],
                    thrown = None\<rparr>,
         t_start = 0, t_end = 5, store_clock = (\<lambda>k. 3), store_error = None\<rparr>
        None (initial_scraper ''N'' ''news'' ''S'' [''https://feed''] 1 [''w''] (startSession 0))
        []))))) + duplicates (results (scrapingLog (fst (snd (run (\<lambda>x. x)
        \<lparr>robots_allows = (\<lambda>u. True),
         adapter = \<lparr>requests_ok = [''https://feed''], requests_failed = [],
                    candidates = [\<lparr>item_url = ''a'', item_title = ''w'', item_props = Map.empty\<rparr>,
                                  \<lparr>item_url = ''b'', item_title = ''w'', item_props = Map.empty\<rparr>,
                                  \<lparr>item_url = ''c'', item_title = ''w'', item_props = Map.empty\<rparr>],
                    thrown = None\<rparr>,
         t_start = 0, t_end = 5, store_clock = (\<lambda>k. 3), store_error = None\<rparr>
        None (initial_scraper ''N'' ''news'' ''S'' [''https://feed''] 1 [''w''] (startSession 0))
        []))))) = 1"
proof -
  have h1: "session_opens (initial_scraper ''N'' ''news'' ''S'' [''https://feed''] 1 [''w''] (startSession 0)) None" by (rule session_opens_example)
  have h2: "\<exists>u \<in> set (initialUrls (initial_scraper ''N'' ''news'' ''S'' [''https://feed''] 1 [''w''] (startSession 0))). robots_allows \<lparr>robots_allows = (\<lambda>u. True),
         adapter = \<lparr>requests_ok = [''https://feed''], requests_failed = [],
                    candidates = [\<lparr>item_url = ''a'', item_title = ''w'', item_props = Map.empty\<rparr>,
                                  \<lparr>item_url = ''b'', item_title = ''w'', item_props = Map.empty\<rparr>,
                                  \<lparr>item_url = ''c'', item_title = ''w'', item_props = Map.empty\<rparr>],
                    thrown = None\<rparr>,
         t_start = 0, t_end = 5, store_clock = (\<lambda>k. 3), store_error = None\<rparr> u" by (simp add: initial_scraper_def)
  have h3: "thrown (adapter \<lparr>robots_allows = (\<lambda>u. True),
         adapter = \<lparr>requests_ok = [''https://feed''], requests_failed = [],
                    candidates = [\<lparr>item_url = ''a'', item_title = ''w'', item_props = Map.empty\<rparr>,
                                  \<lparr>item_url = ''b'', item_title = ''w'', item_props = Map.empty\<rparr>,
                                  \<lparr>item_url = ''c'', item_title = ''w'', item_props = Map.empty\<rparr>],
                    thrown = None\<rparr>,
         t_start = 0, t_end = 5, store_clock = (\<lambda>k. 3), store_error = None\<rparr>) = None" by simp
  have h4: "store_error \<lparr>robots_allows = (\<lambda>u. True),
         adapter = \<lparr>requests_ok = [''https://feed''], requests_failed = [],
                    candidates = [\<lparr>item_url = ''a'', item_title = ''w'', item_props = Map.empty\<rparr>,
                                  \<lparr>item_url = ''b'', item_title = ''w'', item_props = Map.empty\<rparr>,
                                  \<lparr>item_url = ''c'', item_title = ''w'', item_props = Map.empty\<rparr>],
                    thrown = None\<rparr>,
         t_start = 0, t_end = 5, store_clock = (\<lambda>k. 3), store_error = None\<rparr> = None" by simp
  have mx: "maxItems (initial_scraper ''N'' ''news'' ''S'' [''https://feed''] 1 [''w''] (startSession 0)) = 1" by (simp add: initial_scraper_def)
  obtain xs :: "item list" where xs: "scrapedItems (run_scraped \<lparr>robots_allows = (\<lambda>u. True),
         adapter = \<lparr>requests_ok = [''https://feed''], requests_failed = [],
                    candidates = [\<lparr>item_url = ''a'', item_title = ''w'', item_props = Map.empty\<rparr>,
                                  \<lparr>item_url = ''b'', item_title = ''w'', item_props = Map.empty\<rparr>,
                                  \<lparr>item_url = ''c'', item_title = ''w'', item_props = Map.empty\<rparr>],
                    thrown = None\<rparr>,
         t_start = 0, t_end = 5, store_clock = (\<lambda>k. 3), store_error = None\<rparr> (initial_scraper ''N'' ''news'' ''S'' [''https://feed''] 1 [''w''] (startSession 0))) = xs" and n: "length xs = 3"
    using three_items_scraped [of 1] by simp
  have sl: "length (slice0 1 xs) = 1" using n by (simp add: slice0_def Let_def)
  have "found (results (scrapingLog (fst (snd (run (\<lambda>x. x)
        \<lparr>robots_allows = (\<lambda>u. True),
         adapter = \<lparr>requests_ok = [''https://feed''], requests_failed = [],
                    candidates = [\<lparr>item_url = ''a'', item_title = ''w'', item_props = Map.empty\<rparr>,
                                  \<lparr>item_url = ''b'', item_title = ''w'', item_props = Map.empty\<rparr>,
                                  \<lparr>item_url = ''c'', item_title = ''w'', item_props = Map.empty\<rparr>],
                    thrown = None\<rparr>,
         t_start = 0, t_end = 5, store_clock = (\<lambda>k. 3), store_error = None\<rparr>
        None (initial_scraper ''N'' ''news'' ''S'' [''https://feed''] 1 [''w''] (startSession 0))
        []))))) = int (length xs)"
    "r_inserted (results (scrapingLog (fst (snd (run (\<lambda>x. x)
        \<lparr>robots_allows = (\<lambda>u. True),
         adapter = \<lparr>requests_ok = [''https://feed''], requests_failed = [],
                    candidates = [\<lparr>item_url = ''a'', item_title = ''w'', item_props = Map.empty\<rparr>,
                                  \<lparr>item_url = ''b'', item_title = ''w'', item_props = Map.empty\<rparr>,
                                  \<lparr>item_url = ''c'', item_title = ''w'', item_props = Map.empty\<rparr>],
                    thrown = None\<rparr>,
         t_start = 0, t_end = 5, store_clock = (\<lambda>k. 3), store_error = None\<rparr>
        None (initial_scraper ''N'' ''news'' ''S'' [''https://feed''] 1 [''w''] (startSession 0))
        []))))) + updated (results (scrapingLog (fst (snd (run (\<lambda>x. x)
        \<lparr>robots_allows = (\<lambda>u. True),
         adapter = \<lparr>requests_ok = [''https://feed''], requests_failed = [],
                    candidates = [\<lparr>item_url = ''a'', item_title = ''w'', item_props = Map.empty\<rparr>,
                                  \<lparr>item_url = ''b'', item_title = ''w'', item_props = Map.empty\<rparr>,
                                  \<lparr>item_url = ''c'', item_title = ''w'', item_props = Map.empty\<rparr>],
                    thrown = None\<rparr>,
         t_start = 0, t_end = 5, store_clock = (\<lambda>k. 3), store_error = None\<rparr>
        None (initial_scraper ''N'' ''news'' ''S'' [''https://feed''] 1 [''w''] (startSession 0))
        []))))) + duplicates (results (scrapingLog (fst (snd (run (\<lambda>x. x)
        \<lparr>robots_allows = (\<lambda>u. True),
         adapter = \<lparr>requests_ok = [''https://feed''], requests_failed = [],
                    candidates = [\<lparr>item_url = ''a'', item_title = ''w'', item_props = Map.empty\<rparr>,
                                  \<lparr>item_url = ''b'', item_title = ''w'', item_props = Map.empty\<rparr>,
                                  \<lparr>item_url = ''c'', item_title = ''w'', item_props = Map.empty\<rparr>],
                    thrown = None\<rparr>,
         t_start = 0, t_end = 5, store_clock = (\<lambda>k. 3), store_error = None\<rparr>
        None (initial_scraper ''N'' ''news'' ''S'' [''https://feed''] 1 [''w''] (startSession 0))
        []))))) = int (length (slice0 1 xs))"
    using maxItems_limits_saved_items [OF h1 h2 h3 h4, of "\<lambda>x. x" "[]"]
    unfolding mx xs by blast+
  then show ?thesis using h1 h3 h4 mx by (simp add: n sl)
qed


end
